theory Spec2Isabelle
  imports Complex_Main
begin

section \<open>Python values and exceptions\<close>

text \<open>
  The repository consists of two Jupyter notebooks: the GLUE quantization notebook
  (quantization aware training with Intel Neural Compressor) and the PatchTST notebook
  (pretraining and transfer learning of a time series transformer). Their code is
  Python. Exceptions are values of the type \<open>error\<close>; a computation that may raise
  returns \<open>error + 'a\<close>, with \<open>Inl\<close> for the exception.
\<close>

datatype error =
    KeyError string
  | IndexError
  | ValueError
  | ZeroDivisionError
  | FileNotFoundError string
  | LibraryError string

text \<open>Sequencing of computations that may raise: the first exception ends the run.\<close>

definition bind_err :: "error + 'a \<Rightarrow> ('a \<Rightarrow> error + 'b) \<Rightarrow> error + 'b" where
  "bind_err m f = (case m of Inl e \<Rightarrow> Inl e | Inr x \<Rightarrow> f x)"

fun traverse :: "('a \<Rightarrow> error + 'b) \<Rightarrow> 'a list \<Rightarrow> error + 'b list" where
  "traverse f [] = Inr []"
| "traverse f (x # xs) =
     (case f x of
        Inl e \<Rightarrow> Inl e
      | Inr y \<Rightarrow> (case traverse f xs of Inl e \<Rightarrow> Inl e | Inr ys \<Rightarrow> Inr (y # ys)))"

text \<open>
  A dict literal is an association list; \<open>d[k]\<close> raises \<open>KeyError\<close> on a missing key.
\<close>

definition dict_getitem :: "(string \<times> 'v) list \<Rightarrow> string \<Rightarrow> error + 'v" where
  "dict_getitem d k = (case map_of d k of None \<Rightarrow> Inl (KeyError k) | Some v \<Rightarrow> Inr v)"

definition map_getitem :: "(string \<rightharpoonup> 'v) \<Rightarrow> string \<Rightarrow> error + 'v" where
  "map_getitem d k = (case d k of None \<Rightarrow> Inl (KeyError k) | Some v \<Rightarrow> Inr v)"

section \<open>The GLUE quantization notebook: configuration\<close>

text \<open>
  The configuration cell:
  \<^verbatim>\<open>
  GLUE_TASKS = ["cola", "mnli", "mnli-mm", "mrpc", "qnli", "qqp", "rte", "sst2", "stsb", "wnli"]
  task = "sst2"
  model_checkpoint = "distilbert-base-uncased-finetuned-sst-2-english"
  batch_size = 16
  max_train_samples = 200
  max_eval_samples = 200
  \<close>
  The five variables a user of the notebook edits are the fields of \<open>glue_config\<close>;
  \<open>default_config\<close> holds the values of the source.
\<close>

definition GLUE_TASKS :: "string list" where
  "GLUE_TASKS =
     [''cola'', ''mnli'', ''mnli-mm'', ''mrpc'', ''qnli'', ''qqp'', ''rte'', ''sst2'', ''stsb'',
      ''wnli'']"

record glue_config =
  task :: string
  model_checkpoint :: string
  batch_size :: int
  max_train_samples :: int
  max_eval_samples :: int

definition default_config :: glue_config where
  "default_config =
     \<lparr> task = ''sst2'',
       model_checkpoint = ''distilbert-base-uncased-finetuned-sst-2-english'',
       batch_size = 16,
       max_train_samples = 200,
       max_eval_samples = 200 \<rparr>"

text \<open>
  \<^verbatim>\<open>
  task_to_keys = {
      "cola": ("sentence", None),
      "mnli": ("premise", "hypothesis"),
      "mnli-mm": ("premise", "hypothesis"),
      "mrpc": ("sentence1", "sentence2"),
      "qnli": ("question", "sentence"),
      "qqp": ("question1", "question2"),
      "rte": ("sentence1", "sentence2"),
      "sst2": ("sentence", None),
      "stsb": ("sentence1", "sentence2"),
      "wnli": ("sentence1", "sentence2"),
  }
  \<close>
\<close>

definition task_to_keys :: "(string \<times> string \<times> string option) list" where
  "task_to_keys =
     [(''cola'', (''sentence'', None)),
      (''mnli'', (''premise'', Some ''hypothesis'')),
      (''mnli-mm'', (''premise'', Some ''hypothesis'')),
      (''mrpc'', (''sentence1'', Some ''sentence2'')),
      (''qnli'', (''question'', Some ''sentence'')),
      (''qqp'', (''question1'', Some ''question2'')),
      (''rte'', (''sentence1'', Some ''sentence2'')),
      (''sst2'', (''sentence'', None)),
      (''stsb'', (''sentence1'', Some ''sentence2'')),
      (''wnli'', (''sentence1'', Some ''sentence2''))]"

text \<open>The conditional expressions of the top level, each on \<open>task\<close>.\<close>

definition actual_task :: "string \<Rightarrow> string" where
  "actual_task t = (if t = ''mnli-mm'' then ''mnli'' else t)"

definition metric_name :: "string \<Rightarrow> string" where
  "metric_name t =
     (if t = ''stsb'' then ''pearson''
      else if t = ''cola'' then ''matthews_correlation''
      else ''accuracy'')"

definition validation_key :: "string \<Rightarrow> string" where
  "validation_key t =
     (if t = ''mnli-mm'' then ''validation_mismatched''
      else if t = ''mnli'' then ''validation_matched''
      else ''validation'')"

text \<open>
  \<^verbatim>\<open>save_directory = f"{model_checkpoint.split('/')[-1]}-finetuned-{task}"\<close>:
  the last component of \<open>split('/')\<close> is what follows the last slash.
\<close>

definition split_last :: "string \<Rightarrow> string" where
  "split_last s = rev (takeWhile (\<lambda>c. c \<noteq> CHR ''/'') (rev s))"

definition save_directory :: "glue_config \<Rightarrow> string" where
  "save_directory c = split_last (model_checkpoint c) @ ''-finetuned-'' @ task c"

section \<open>The functions the quantization notebook defines\<close>

subsection \<open>NumPy arrays\<close>

text \<open>
  The logits handed to \<open>compute_metrics\<close> are a two-dimensional array: its rows, and the
  length of axis 1 (which an array without rows still has). The elements are of any
  linearly ordered type; a floating point NaN is outside the model.
  \<open>np.argmax(a, axis=1)\<close> gives, for each row, the index of the first occurrence of the
  row's maximum, and raises \<open>ValueError\<close> when axis 1 is empty; \<open>a[:, 0]\<close> gives the
  first element of each row and raises \<open>IndexError\<close> when axis 1 is empty.
\<close>

record 'a ndarray2 =
  ncols :: nat
  rows :: "'a list list"

datatype 'a ndarray1 = Indices "nat list" | Values "'a list"

fun argmax_from :: "'a::linorder \<Rightarrow> nat \<Rightarrow> nat \<Rightarrow> 'a list \<Rightarrow> nat" where
  "argmax_from best bi i [] = bi"
| "argmax_from best bi i (x # xs) =
     (if best < x then argmax_from x i (Suc i) xs else argmax_from best bi (Suc i) xs)"

definition argmax_row :: "'a::linorder list \<Rightarrow> error + nat" where
  "argmax_row r = (case r of [] \<Rightarrow> Inl ValueError | x # xs \<Rightarrow> Inr (argmax_from x 0 1 xs))"

definition first_of_row :: "'a list \<Rightarrow> error + 'a" where
  "first_of_row r = (case r of [] \<Rightarrow> Inl IndexError | x # xs \<Rightarrow> Inr x)"

definition np_argmax_axis1 :: "'a::linorder ndarray2 \<Rightarrow> error + 'a ndarray1" where
  "np_argmax_axis1 a =
     (if ncols a = 0 then Inl ValueError
      else bind_err (traverse argmax_row (rows a)) (\<lambda>is. Inr (Indices is)))"

definition column0 :: "'a ndarray2 \<Rightarrow> error + 'a ndarray1" where
  "column0 a =
     (if ncols a = 0 then Inl IndexError
      else bind_err (traverse first_of_row (rows a)) (\<lambda>vs. Inr (Values vs)))"

subsection \<open>The module-level variables the functions read\<close>

text \<open>
  \<open>preprocess_function\<close> and \<open>compute_metrics\<close> have one parameter each and read the
  rest from the module: \<open>sentence1_key\<close>, \<open>sentence2_key\<close>, \<open>tokenizer\<close>, \<open>padding\<close>,
  \<open>max_seq_length\<close>, \<open>task\<close> and \<open>metric\<close>. The module-level environment is a record
  that extends the configuration. The tokenizer and the metric are objects of external
  libraries: the tokenizer takes the positional arguments (one or two columns of
  sentences), \<open>padding\<close>, \<open>max_length\<close> and \<open>truncation\<close>; \<open>metric.compute\<close> takes the
  predictions and the references.
\<close>

record ('enc, 'res, 'a, 'l) glue_globals = glue_config +
  sentence1_key :: string
  sentence2_key :: "string option"
  max_seq_length :: int
  padding :: string
  tokenizer :: "string list list \<Rightarrow> string \<Rightarrow> int \<Rightarrow> bool \<Rightarrow> error + 'enc"
  metric :: "'a ndarray1 \<Rightarrow> 'l \<Rightarrow> error + 'res"

text \<open>
  \<^verbatim>\<open>
  def preprocess_function(examples):
      args = (
          (examples[sentence1_key],) if sentence2_key is None
          else (examples[sentence1_key], examples[sentence2_key])
      )
      return tokenizer(*args, padding=padding, max_length=max_seq_length, truncation=True)
  \<close>
\<close>

definition preprocess_function ::
  "('enc, 'res, 'a, 'l) glue_globals \<Rightarrow> (string \<rightharpoonup> string list) \<Rightarrow> error + 'enc" where
  "preprocess_function g examples =
     bind_err
       (case sentence2_key g of
          None \<Rightarrow> bind_err (map_getitem examples (sentence1_key g)) (\<lambda>a. Inr [a])
        | Some k2 \<Rightarrow>
            bind_err (map_getitem examples (sentence1_key g)) (\<lambda>a.
            bind_err (map_getitem examples k2) (\<lambda>b. Inr [a, b])))
       (\<lambda>args. tokenizer g args (padding g) (max_seq_length g) True)"

text \<open>
  \<^verbatim>\<open>
  def compute_metrics(eval_pred):
      predictions, labels = eval_pred
      if task != "stsb":
          predictions = np.argmax(predictions, axis=1)
      else:
          predictions = predictions[:, 0]
      return metric.compute(predictions=predictions, references=labels)
  \<close>
\<close>

definition compute_metrics ::
  "('enc, 'res, 'a::linorder, 'l) glue_globals \<Rightarrow> 'a ndarray2 \<times> 'l \<Rightarrow> error + 'res" where
  "compute_metrics g eval_pred =
     (case eval_pred of (predictions, labels) \<Rightarrow>
        bind_err
          (if task g \<noteq> ''stsb'' then np_argmax_axis1 predictions else column0 predictions)
          (\<lambda>predictions'. metric g predictions' labels))"

subsection \<open>Python's \<open>round\<close> and the size of a model\<close>

text \<open>
  Python rounds a float to the nearest value and a tie to the even neighbour. The
  argument here is a number of bytes divided by \<open>1024*1024\<close>, which a double holds
  exactly (for fewer than \<open>2^53\<close> bytes); the model computes on the rational number.
  \<open>round(x, 2)\<close> is a multiple of \<open>1/100\<close> (the float returned is the double nearest to
  it), \<open>round(x)\<close> is an integer.
\<close>

definition round_half_even :: "rat \<Rightarrow> int" where
  "round_half_even x =
     (let f = \<lfloor>x\<rfloor>; d = x - of_int f
      in if d < 1 / 2 then f else if 1 / 2 < d then f + 1 else if even f then f else f + 1)"

definition py_round2 :: "rat \<Rightarrow> rat" where
  "py_round2 x = of_int (round_half_even (x * 100)) / 100"

definition py_truediv :: "rat \<Rightarrow> rat \<Rightarrow> error + rat" where
  "py_truediv a b = (if b = 0 then Inl ZeroDivisionError else Inr (a / b))"

text \<open>
  The files of the working directory: a path has a content (a list of bytes) or does
  not exist. \<open>torch.save(obj, path)\<close> creates the file or replaces its content with the
  serialized object, \<open>os.path.getsize\<close> gives the length of the content,
  \<open>os.remove\<close> deletes the file; the last two raise \<open>FileNotFoundError\<close> on a
  path that does not exist. A write that fails (a full disk, a directory of that name)
  is outside the model.
\<close>

type_synonym filesystem = "string \<rightharpoonup> nat list"

definition torch_save :: "nat list \<Rightarrow> string \<Rightarrow> filesystem \<Rightarrow> error + filesystem" where
  "torch_save bytes path fs = Inr (fs(path \<mapsto> bytes))"

definition os_path_getsize :: "string \<Rightarrow> filesystem \<Rightarrow> error + nat" where
  "os_path_getsize path fs =
     (case fs path of None \<Rightarrow> Inl (FileNotFoundError path) | Some bytes \<Rightarrow> Inr (length bytes))"

definition os_remove :: "string \<Rightarrow> filesystem \<Rightarrow> error + filesystem" where
  "os_remove path fs =
     (case fs path of None \<Rightarrow> Inl (FileNotFoundError path) | Some bytes \<Rightarrow> Inr (fs(path := None)))"

text \<open>
  \<^verbatim>\<open>
  def get_model_size(model):
      torch.save(model.state_dict(), "tmp.pt")
      model_size = os.path.getsize("tmp.pt") / (1024*1024)
      os.remove("tmp.pt")
      return round(model_size, 2)
  \<close>
  The serialization of the model's state dict is the library's: the parameter
  \<open>serialize\<close> gives the bytes \<open>torch.save\<close> writes for a model, or the exception
  raised by \<open>state_dict\<close> or by pickling. The function returns its value and the
  files it leaves.
\<close>

definition get_model_size ::
  "('m \<Rightarrow> error + nat list) \<Rightarrow> 'm \<Rightarrow> filesystem \<Rightarrow> error + rat \<times> filesystem" where
  "get_model_size serialize model fs =
     bind_err (serialize model) (\<lambda>bytes.
     bind_err (torch_save bytes ''tmp.pt'' fs) (\<lambda>fs1.
     bind_err (os_path_getsize ''tmp.pt'' fs1) (\<lambda>n.
       let model_size = of_nat n / (1024 * 1024)
       in bind_err (os_remove ''tmp.pt'' fs1) (\<lambda>fs2.
            Inr (py_round2 model_size, fs2)))))"

section \<open>Calls into the external libraries\<close>

text \<open>
  The notebooks are sequences of statements at the top level, and every statement calls
  into libraries: \<open>datasets\<close>, \<open>evaluate\<close>, \<open>transformers\<close>, \<open>neural_compressor\<close>,
  \<open>optimum\<close>, \<open>torch\<close>, \<open>pandas\<close>, \<open>tsfm_public\<close> and Python's own \<open>os\<close>, \<open>copy\<close>,
  \<open>warnings\<close> and builtins. The libraries are black boxes. What a run of a notebook
  does is the sequence of calls it issues, each with the module that owns the callee,
  the callee's name, the positional and the keyword arguments. The computation between
  the calls (conditional expressions, arithmetic, string formatting) is carried out in
  HOL, on the values of the source.

  An argument is a literal, a value computed by the notebook, or an object a library
  returned earlier (\<open>Obj\<close>, named by the expression that holds it). \<open>Dec m e\<close> is the
  decimal float literal \<open>m * 10^e\<close>; \<open>Fn\<close> is a function the notebook defines and hands
  to a library; \<open>Fmt\<close> is an f-string with the values that fill its holes.
\<close>

datatype arg =
    Str string
  | IntV int
  | Dec int int
  | Bool bool
  | NoneV
  | Obj string
  | Fn string
  | Lst "arg list"
  | Range int
  | Slice "int option" "int option"
  | Fmt string "arg list"

datatype call =
  Call (modl: string) (fn: string) (args: "arg list") (kwargs: "(string \<times> arg) list")

text \<open>
  A program is the list of calls of a run in which no library call raises, and the
  exception the notebook's own code raises at its end, if it does. Sequencing stops
  at an exception.
\<close>

type_synonym program = "call list \<times> error option"

definition calls :: "call list \<Rightarrow> program" where
  "calls cs = (cs, None)"

definition raise :: "error \<Rightarrow> program" where
  "raise e = ([], Some e)"

definition seq :: "program \<Rightarrow> program \<Rightarrow> program" where
  "seq p q = (case snd p of None \<Rightarrow> (fst p @ fst q, snd q) | Some e \<Rightarrow> p)"




definition print_call :: "arg list \<Rightarrow> call" where
  "print_call xs = Call ''builtins'' ''print'' xs []"

section \<open>The top level of the quantization notebook\<close>

text \<open>
  The modules the notebook imports, in the order of its \<open>import\<close> statements.
\<close>

definition glue_imports :: "string list" where
  "glue_imports =
     [''optimum.intel.version'', ''evaluate'', ''datasets'', ''transformers.utils'',
      ''transformers'', ''transformers'', ''neural_compressor'', ''numpy'', ''copy'',
      ''optimum.intel.neural_compressor'', ''os'', ''torch'',
      ''optimum.intel.neural_compressor'', ''optimum.onnxruntime'']"

text \<open>\<^verbatim>\<open>print(__version__)\<close>\<close>

definition cell_version :: "call list" where
  "cell_version = [print_call [Obj ''__version__'']]"

text \<open>
  \<^verbatim>\<open>
  actual_task = "mnli" if task == "mnli-mm" else task
  dataset = load_dataset("glue", actual_task)
  metric = evaluate.load("glue", actual_task)
  \<close>
\<close>

definition cell_load_dataset :: "glue_config \<Rightarrow> call list" where
  "cell_load_dataset c =
     [Call ''datasets'' ''load_dataset'' [Str ''glue'', Str (actual_task (task c))] [],
      Call ''evaluate'' ''load'' [Str ''glue'', Str (actual_task (task c))] []]"

text \<open>
  \<^verbatim>\<open>send_example_telemetry("text_classification_quantization_inc_notebook", framework="none")\<close>
\<close>

definition cell_telemetry :: "call list" where
  "cell_telemetry =
     [Call ''transformers.utils'' ''send_example_telemetry''
        [Str ''text_classification_quantization_inc_notebook''] [(''framework'', Str ''none'')]]"

text \<open>\<^verbatim>\<open>tokenizer = AutoTokenizer.from_pretrained(model_checkpoint)\<close>\<close>

definition cell_tokenizer :: "glue_config \<Rightarrow> call list" where
  "cell_tokenizer c =
     [Call ''transformers'' ''AutoTokenizer.from_pretrained'' [Str (model_checkpoint c)] []]"

text \<open>
  \<^verbatim>\<open>
  sentence1_key, sentence2_key = task_to_keys[task]
  if sentence2_key is None:
      print(f"Sentence: {dataset['train'][0][sentence1_key]}")
  else:
      print(f"Sentence 1: {dataset['train'][0][sentence1_key]}")
      print(f"Sentence 2: {dataset['train'][0][sentence2_key]}")
  \<close>
  The lookup is in \<open>glue_notebook\<close> below; \<open>first_sentence\<close> is the expression
  \<open>dataset['train'][0][key]\<close>: two subscriptions of \<open>datasets\<close> objects and one of the
  row, a dict.
\<close>

definition first_sentence :: "string \<Rightarrow> call list" where
  "first_sentence key =
     [Call ''datasets'' ''DatasetDict.__getitem__'' [Obj ''dataset'', Str ''train''] [],
      Call ''datasets'' ''Dataset.__getitem__'' [Obj ''dataset[train]'', IntV 0] [],
      Call ''builtins'' ''dict.__getitem__'' [Obj ''dataset[train][0]'', Str key] []]"

definition cell_show_sentences :: "string \<Rightarrow> string option \<Rightarrow> call list" where
  "cell_show_sentences key1 key2 =
     (case key2 of
        None \<Rightarrow>
          first_sentence key1 @
          [print_call [Fmt ''Sentence: {}'' [Obj ''dataset[train][0][sentence1_key]'']]]
      | Some k2 \<Rightarrow>
          first_sentence key1 @
          [print_call [Fmt ''Sentence 1: {}'' [Obj ''dataset[train][0][sentence1_key]'']]] @
          first_sentence k2 @
          [print_call [Fmt ''Sentence 2: {}'' [Obj ''dataset[train][0][sentence2_key]'']]])"

text \<open>\<^verbatim>\<open>encoded_dataset = dataset.map(preprocess_function, batched=True)\<close>\<close>

definition cell_map :: "call list" where
  "cell_map =
     [Call ''datasets'' ''DatasetDict.map'' [Obj ''dataset'', Fn ''preprocess_function'']
        [(''batched'', Bool True)]]"

text \<open>\<^verbatim>\<open>model = AutoModelForSequenceClassification.from_pretrained(model_checkpoint)\<close>\<close>

definition cell_model :: "glue_config \<Rightarrow> call list" where
  "cell_model c =
     [Call ''transformers'' ''AutoModelForSequenceClassification.from_pretrained''
        [Str (model_checkpoint c)] []]"

text \<open>\<^verbatim>\<open>quantization_config = QuantizationAwareTrainingConfig()\<close>\<close>

definition cell_quantization_config :: "call list" where
  "cell_quantization_config =
     [Call ''neural_compressor'' ''QuantizationAwareTrainingConfig'' [] []]"

text \<open>
  \<^verbatim>\<open>
  metric_name = "pearson" if task == "stsb" else "matthews_correlation" if task == "cola" else "accuracy"
  save_directory = f"{model_checkpoint.split('/')[-1]}-finetuned-{task}"

  args = TrainingArguments(
      output_dir = save_directory,
      do_train=True,
      do_eval=False,
      eval_strategy = "epoch",
      save_strategy = "epoch",
      learning_rate=2e-5,
      per_device_train_batch_size=batch_size,
      per_device_eval_batch_size=batch_size,
      num_train_epochs=1,
      weight_decay=0.01,
      load_best_model_at_end=True,
      metric_for_best_model=metric_name,
  )
  \<close>
\<close>

definition cell_training_args :: "glue_config \<Rightarrow> call list" where
  "cell_training_args c =
     [Call ''transformers'' ''TrainingArguments'' []
        [(''output_dir'', Str (save_directory c)),
         (''do_train'', Bool True),
         (''do_eval'', Bool False),
         (''eval_strategy'', Str ''epoch''),
         (''save_strategy'', Str ''epoch''),
         (''learning_rate'', Dec 2 (- 5)),
         (''per_device_train_batch_size'', IntV (batch_size c)),
         (''per_device_eval_batch_size'', IntV (batch_size c)),
         (''num_train_epochs'', IntV 1),
         (''weight_decay'', Dec 1 (- 2)),
         (''load_best_model_at_end'', Bool True),
         (''metric_for_best_model'', Str (metric_name (task c)))]]"

text \<open>
  \<^verbatim>\<open>
  validation_key = "validation_mismatched" if task == "mnli-mm" else "validation_matched" if task == "mnli" else "validation"
  trainer = INCTrainer(
      model=model,
      quantization_config=quantization_config,
      task="sequence-classification", # optional : only needed to export the model to the ONNX format
      args=args,
      train_dataset=encoded_dataset["train"].select(range(max_train_samples)),
      eval_dataset=encoded_dataset[validation_key].select(range(max_eval_samples)),
      compute_metrics=compute_metrics,
      tokenizer=tokenizer,
      data_collator=default_data_collator,
  )
  fp_model = copy.deepcopy(model)
  \<close>
  The arguments are evaluated before the call, from left to right.
\<close>

definition cell_trainer :: "glue_config \<Rightarrow> call list" where
  "cell_trainer c =
     [Call ''datasets'' ''DatasetDict.__getitem__'' [Obj ''encoded_dataset'', Str ''train''] [],
      Call ''datasets'' ''Dataset.select''
        [Obj ''encoded_dataset[train]'', Range (max_train_samples c)] [],
      Call ''datasets'' ''DatasetDict.__getitem__''
        [Obj ''encoded_dataset'', Str (validation_key (task c))] [],
      Call ''datasets'' ''Dataset.select''
        [Obj ''encoded_dataset[validation_key]'', Range (max_eval_samples c)] [],
      Call ''optimum.intel.neural_compressor'' ''INCTrainer'' []
        [(''model'', Obj ''model''),
         (''quantization_config'', Obj ''quantization_config''),
         (''task'', Str ''sequence-classification''),
         (''args'', Obj ''args''),
         (''train_dataset'', Obj ''encoded_dataset[train].select(...)''),
         (''eval_dataset'', Obj ''encoded_dataset[validation_key].select(...)''),
         (''compute_metrics'', Fn ''compute_metrics''),
         (''tokenizer'', Obj ''tokenizer''),
         (''data_collator'', Obj ''default_data_collator'')],
      Call ''copy'' ''deepcopy'' [Obj ''model''] []]"

text \<open>\<^verbatim>\<open>trainer.train()\<close> and \<^verbatim>\<open>trainer.evaluate()\<close>\<close>

definition cell_train :: "call list" where
  "cell_train = [Call ''optimum.intel.neural_compressor'' ''INCTrainer.train'' [Obj ''trainer''] []]"

definition cell_evaluate :: "call list" where
  "cell_evaluate =
     [Call ''optimum.intel.neural_compressor'' ''INCTrainer.evaluate'' [Obj ''trainer''] []]"

text \<open>
  The calls of one \<open>get_model_size(model)\<close>, and the cell that measures both models:
  \<^verbatim>\<open>
  fp_model_size = get_model_size(fp_model)
  q_model_size = get_model_size(trainer.model)

  print(f"The full-precision model size is {round(fp_model_size)} MB while the quantized model one is {round(q_model_size)} MB.")
  print(f"The quantized model is {round(fp_model_size / q_model_size, 2)}x smaller than the full-precision one.")
  \<close>
  The sizes in bytes that \<open>os.path.getsize\<close> returns are inputs. The division raises
  \<open>ZeroDivisionError\<close> when the rounded size of the quantized model is zero. The
  quotient of the two floats is printed rounded to two places; its digits
  are not modelled.
\<close>

definition get_model_size_calls :: "string \<Rightarrow> call list" where
  "get_model_size_calls model =
     [Call ''torch'' ''Module.state_dict'' [Obj model] [],
      Call ''torch'' ''save'' [Obj (model @ ''.state_dict()''), Str ''tmp.pt''] [],
      Call ''os.path'' ''getsize'' [Str ''tmp.pt''] [],
      Call ''os'' ''remove'' [Str ''tmp.pt''] []]"

definition model_size_of_bytes :: "int \<Rightarrow> rat" where
  "model_size_of_bytes n = py_round2 (of_int n / (1024 * 1024))"

definition cell_model_sizes :: "int \<Rightarrow> int \<Rightarrow> program" where
  "cell_model_sizes fp_bytes q_bytes =
     (let fp_model_size = model_size_of_bytes fp_bytes;
          q_model_size = model_size_of_bytes q_bytes
      in seq
           (calls
              (get_model_size_calls ''fp_model'' @ get_model_size_calls ''trainer.model'' @
               [print_call
                  [Fmt ''The full-precision model size is {} MB while the quantized model one is {} MB.''
                     [IntV (round_half_even fp_model_size), IntV (round_half_even q_model_size)]]]))
           (case py_truediv fp_model_size q_model_size of
              Inl e \<Rightarrow> raise e
            | Inr ratio \<Rightarrow>
                calls
                  [print_call
                     [Fmt ''The quantized model is {}x smaller than the full-precision one.''
                        [Obj ''round(fp_model_size / q_model_size, 2)'']]]))"

text \<open>\<^verbatim>\<open>trainer.save_model(save_onnx_model=True)\<close>\<close>

definition cell_save_model :: "call list" where
  "cell_save_model =
     [Call ''optimum.intel.neural_compressor'' ''INCTrainer.save_model'' [Obj ''trainer'']
        [(''save_onnx_model'', Bool True)]]"

text \<open>
  \<^verbatim>\<open>
  pytorch_model = INCModelForSequenceClassification.from_pretrained(save_directory)
  onnx_model = ORTModelForSequenceClassification.from_pretrained(save_directory)
  \<close>
\<close>

definition cell_load_quantized :: "glue_config \<Rightarrow> call list" where
  "cell_load_quantized c =
     [Call ''optimum.intel.neural_compressor'' ''INCModelForSequenceClassification.from_pretrained''
        [Str (save_directory c)] [],
      Call ''optimum.onnxruntime'' ''ORTModelForSequenceClassification.from_pretrained''
        [Str (save_directory c)] []]"

text \<open>
  The notebook, cell after cell. \<open>glue_before_lookup\<close> are the cells above the lookup
  \<open>task_to_keys[task]\<close>, \<open>glue_pipeline\<close> the cells from there to \<open>trainer.evaluate()\<close>.
\<close>

definition glue_before_lookup :: "glue_config \<Rightarrow> call list" where
  "glue_before_lookup c =
     cell_version @ cell_load_dataset c @ cell_telemetry @ cell_tokenizer c"

definition glue_pipeline :: "glue_config \<Rightarrow> string \<Rightarrow> string option \<Rightarrow> call list" where
  "glue_pipeline c key1 key2 =
     cell_show_sentences key1 key2 @ cell_map @ cell_model c @ cell_quantization_config @
     cell_training_args c @ cell_trainer c @ cell_train @ cell_evaluate"

definition glue_notebook :: "glue_config \<Rightarrow> int \<Rightarrow> int \<Rightarrow> program" where
  "glue_notebook c fp_bytes q_bytes =
     seq (calls (glue_before_lookup c))
       (case dict_getitem task_to_keys (task c) of
          Inl e \<Rightarrow> raise e
        | Inr (key1, key2) \<Rightarrow>
            seq (calls (glue_pipeline c key1 key2))
              (seq (cell_model_sizes fp_bytes q_bytes)
                 (calls (cell_save_model @ cell_load_quantized c))))"

text \<open>
  The calls in the bodies of the three functions the notebook defines, over both
  branches: \<open>preprocess_function\<close> subscripts the batch and calls the tokenizer,
  \<open>compute_metrics\<close> calls \<open>np.argmax\<close> or subscripts the array and calls
  \<open>metric.compute\<close>, \<open>get_model_size\<close> is above.
\<close>

definition glue_function_calls :: "call list" where
  "glue_function_calls =
     [Call ''builtins'' ''dict.__getitem__'' [Obj ''examples'', Obj ''sentence1_key''] [],
      Call ''builtins'' ''dict.__getitem__'' [Obj ''examples'', Obj ''sentence2_key''] [],
      Call ''transformers'' ''PreTrainedTokenizer.__call__'' [Obj ''*args'']
        [(''padding'', Obj ''padding''), (''max_length'', Obj ''max_seq_length''),
         (''truncation'', Bool True)],
      Call ''numpy'' ''argmax'' [Obj ''predictions''] [(''axis'', IntV 1)],
      Call ''numpy'' ''ndarray.__getitem__'' [Obj ''predictions'', Slice None None, IntV 0] [],
      Call ''evaluate'' ''EvaluationModule.compute'' []
        [(''predictions'', Obj ''predictions''), (''references'', Obj ''labels'')]] @
     get_model_size_calls ''model''"

section \<open>The PatchTST notebook: configuration and the split of the Electricity data\<close>

text \<open>
  \<^verbatim>\<open>
  dataset_path = "~/data/ECL.csv"
  timestamp_column = "date"
  id_columns = []

  context_length = 512
  forecast_horizon = 96
  patch_length = 16
  num_workers = 16  # Reduce this if you have low number of CPU cores
  batch_size = 64  # Adjust according to GPU memory
  \<close>
  and, before the transfer learning part, \<^verbatim>\<open>dataset = "ETTh1"\<close>.
\<close>

record patchtst_config =
  dataset_path :: string
  timestamp_column :: string
  context_length :: int
  forecast_horizon :: int
  patch_length :: int
  num_workers :: int
  batch_size :: int
  dataset :: string

definition default_patchtst_config :: patchtst_config where
  "default_patchtst_config =
     \<lparr> dataset_path = ''~/data/ECL.csv'',
       timestamp_column = ''date'',
       context_length = 512,
       forecast_horizon = 96,
       patch_length = 16,
       num_workers = 16,
       batch_size = 64,
       dataset = ''ETTh1'' \<rparr>"

text \<open>
  \<open>int(len(data) * 0.7)\<close> multiplies in double precision and truncates. A double is a
  mantissa of at most 53 bits times a power of two; \<open>round53\<close> rounds a natural number
  to 53 significant bits (to nearest, a tie to the even mantissa) and returns the
  mantissa with the number of bits dropped. The literal \<open>0.7\<close> is the double
  \<open>6305039478318694 / 2^53\<close> and \<open>0.2\<close> is \<open>7205759403792794 / 2^55\<close>.
  Overflow cannot occur for the length of a dataframe.
\<close>

function bit_length :: "int \<Rightarrow> nat" where
  "bit_length n = (if n \<le> 0 then 0 else Suc (bit_length (n div 2)))"
  by pat_completeness auto
termination
  by (relation "measure nat") auto

declare bit_length.simps [simp del]

definition round53 :: "int \<Rightarrow> int \<times> nat" where
  "round53 x =
     (let sh = bit_length x - 53; q = x div 2 ^ sh; r = x mod 2 ^ sh
      in if 0 < sh \<and> (2 ^ sh < 2 * r \<or> (2 * r = 2 ^ sh \<and> odd q)) then (q + 1, sh) else (q, sh))"

definition int_of_float_product :: "nat \<Rightarrow> int \<Rightarrow> nat \<Rightarrow> int" where
  \<comment> \<open>\<open>int(n * d)\<close> for the double \<open>d = m / 2^e\<close>\<close>
  "int_of_float_product n m e =
     (case round53 (int n) of (qn, s1) \<Rightarrow>
        (case round53 (qn * m) of (q, s2) \<Rightarrow> (q * 2 ^ (s1 + s2)) div 2 ^ e))"

definition times_0_7 :: "nat \<Rightarrow> int" where
  "times_0_7 n = int_of_float_product n 6305039478318694 53"

definition times_0_2 :: "nat \<Rightarrow> int" where
  "times_0_2 n = int_of_float_product n 7205759403792794 55"

text \<open>
  \<^verbatim>\<open>
  num_train = int(len(data) * 0.7)
  num_test = int(len(data) * 0.2)
  num_valid = len(data) - num_train - num_test
  border1s = [
      0,
      num_train - context_length,
      len(data) - num_test - context_length,
  ]
  border2s = [num_train, num_train + num_valid, len(data)]

  train_start_index = border1s[0]  # None indicates beginning of dataset
  train_end_index = border2s[0]

  # we shift the start of the evaluation period back by context length so that
  # the first evaluation timestamp is immediately following the training data
  valid_start_index = border1s[1]
  valid_end_index = border2s[1]

  test_start_index = border1s[2]
  test_end_index = border2s[2]
  \<close>
  The argument \<open>n\<close> is \<open>len(data)\<close>.
\<close>

definition num_train :: "nat \<Rightarrow> int" where
  "num_train n = times_0_7 n"

definition num_test :: "nat \<Rightarrow> int" where
  "num_test n = times_0_2 n"

definition num_valid :: "nat \<Rightarrow> int" where
  "num_valid n = int n - num_train n - num_test n"

definition border1s :: "patchtst_config \<Rightarrow> nat \<Rightarrow> int list" where
  "border1s c n =
     [0, num_train n - context_length c, int n - num_test n - context_length c]"

definition border2s :: "nat \<Rightarrow> int list" where
  "border2s n = [num_train n, num_train n + num_valid n, int n]"

definition train_start_index :: "patchtst_config \<Rightarrow> nat \<Rightarrow> int" where
  "train_start_index c n = border1s c n ! 0"

definition train_end_index :: "nat \<Rightarrow> int" where
  "train_end_index n = border2s n ! 0"

definition valid_start_index :: "patchtst_config \<Rightarrow> nat \<Rightarrow> int" where
  "valid_start_index c n = border1s c n ! 1"

definition valid_end_index :: "nat \<Rightarrow> int" where
  "valid_end_index n = border2s n ! 1"

definition test_start_index :: "patchtst_config \<Rightarrow> nat \<Rightarrow> int" where
  "test_start_index c n = border1s c n ! 2"

definition test_end_index :: "nat \<Rightarrow> int" where
  "test_end_index n = border2s n ! 2"

section \<open>The top level of the PatchTST notebook\<close>

definition patchtst_imports :: "string list" where
  "patchtst_imports =
     [''os'', ''transformers'', ''numpy'', ''pandas'', ''tsfm_public.toolkit.dataset'',
      ''tsfm_public.toolkit.time_series_preprocessor'', ''tsfm_public.toolkit.util'',
      ''warnings'']"

text \<open>\<^verbatim>\<open>warnings.filterwarnings("ignore", module="torch")\<close> and \<^verbatim>\<open>set_seed(2023)\<close>\<close>

definition cell_setup :: "call list" where
  "cell_setup =
     [Call ''warnings'' ''filterwarnings'' [Str ''ignore''] [(''module'', Str ''torch'')],
      Call ''transformers'' ''set_seed'' [IntV 2023] []]"

subsection \<open>Part 1: forecasting on the Electricity data\<close>

text \<open>
  \<^verbatim>\<open>
  data = pd.read_csv(
      dataset_path,
      parse_dates=[timestamp_column],
  )
  forecast_columns = list(data.columns[1:])
  \<close>
  then the split above, which evaluates \<open>len(data)\<close> five times, and
  \<^verbatim>\<open>
  train_data = select_by_index(
      data,
      id_columns=id_columns,
      start_index=train_start_index,
      end_index=train_end_index,
  )
  \<close>
  the same for \<open>valid_data\<close> and \<open>test_data\<close>, and
  \<^verbatim>\<open>
  time_series_preprocessor = TimeSeriesPreprocessor(
      timestamp_column=timestamp_column,
      id_columns=id_columns,
      input_columns=forecast_columns,
      output_columns=forecast_columns,
      scaling=True,
  )
  time_series_preprocessor = time_series_preprocessor.train(train_data)
  \<close>
  The inputs are the columns of the CSV file and the length of the dataframe.
\<close>

definition forecast_columns :: "string list \<Rightarrow> arg" where
  "forecast_columns columns = Lst (map Str (drop 1 columns))"

definition select_by_index :: "arg \<Rightarrow> arg \<Rightarrow> call" where
  "select_by_index start_index end_index =
     Call ''tsfm_public.toolkit.util'' ''select_by_index'' [Obj ''data'']
       [(''id_columns'', Lst []), (''start_index'', start_index), (''end_index'', end_index)]"

definition time_series_preprocessor :: "string \<Rightarrow> arg \<Rightarrow> call list" where
  "time_series_preprocessor ts_column columns =
     [Call ''tsfm_public.toolkit.time_series_preprocessor'' ''TimeSeriesPreprocessor'' []
        [(''timestamp_column'', Str ts_column),
         (''id_columns'', Lst []),
         (''input_columns'', columns),
         (''output_columns'', columns),
         (''scaling'', Bool True)],
      Call ''tsfm_public.toolkit.time_series_preprocessor'' ''TimeSeriesPreprocessor.train''
        [Obj ''time_series_preprocessor'', Obj ''train_data''] []]"

definition len_data :: call where
  "len_data = Call ''pandas'' ''DataFrame.__len__'' [Obj ''data''] []"

definition cell_electricity_data :: "patchtst_config \<Rightarrow> string list \<Rightarrow> nat \<Rightarrow> call list" where
  "cell_electricity_data c columns n =
     [Call ''pandas'' ''read_csv'' [Str (dataset_path c)]
        [(''parse_dates'', Lst [Str (timestamp_column c)])],
      Call ''pandas'' ''Index.__getitem__'' [Obj ''data.columns'', Slice (Some 1) None] [],
      len_data, len_data, len_data, len_data, len_data,
      select_by_index (IntV (train_start_index c n)) (IntV (train_end_index n)),
      select_by_index (IntV (valid_start_index c n)) (IntV (valid_end_index n)),
      select_by_index (IntV (test_start_index c n)) (IntV (test_end_index n))] @
     time_series_preprocessor (timestamp_column c) (forecast_columns columns)"

text \<open>
  \<^verbatim>\<open>
  train_dataset = ForecastDFDataset(
      time_series_preprocessor.preprocess(train_data),
      id_columns=id_columns,
      timestamp_column="date",
      input_columns=forecast_columns,
      output_columns=forecast_columns,
      context_length=context_length,
      prediction_length=forecast_horizon,
  )
  \<close>
  and the same for \<open>valid_dataset\<close> and \<open>test_dataset\<close>. The transfer learning part
  builds its three datasets without the \<open>timestamp_column\<close> argument.
\<close>

definition forecast_dataset ::
  "patchtst_config \<Rightarrow> (string \<times> arg) list \<Rightarrow> arg \<Rightarrow> string \<Rightarrow> call list" where
  "forecast_dataset c ts columns part =
     [Call ''tsfm_public.toolkit.time_series_preprocessor'' ''TimeSeriesPreprocessor.preprocess''
        [Obj ''time_series_preprocessor'', Obj part] [],
      Call ''tsfm_public.toolkit.dataset'' ''ForecastDFDataset''
        [Obj (''time_series_preprocessor.preprocess('' @ part @ '')'')]
        ([(''id_columns'', Lst [])] @ ts @
         [(''input_columns'', columns),
          (''output_columns'', columns),
          (''context_length'', IntV (context_length c)),
          (''prediction_length'', IntV (forecast_horizon c))])]"

definition cell_datasets :: "patchtst_config \<Rightarrow> (string \<times> arg) list \<Rightarrow> arg \<Rightarrow> call list" where
  "cell_datasets c ts columns =
     forecast_dataset c ts columns ''train_data'' @
     forecast_dataset c ts columns ''valid_data'' @
     forecast_dataset c ts columns ''test_data''"

text \<open>
  \<^verbatim>\<open>
  config = PatchTSTConfig(
      num_input_channels=len(forecast_columns),
      context_length=context_length,
      patch_length=patch_length,
      patch_stride=patch_length,
      prediction_length=forecast_horizon,
      random_mask_ratio=0.4,
      d_model=128,
      num_attention_heads=16,
      num_hidden_layers=3,
      ffn_dim=256,
      dropout=0.2,
      head_dropout=0.2,
      pooling_type=None,
      channel_attention=False,
      scaling="std",
      loss="mse",
      pre_norm=True,
      norm_type="batchnorm",
  )
  model = PatchTSTForPrediction(config)
  \<close>
\<close>

definition cell_model_config :: "patchtst_config \<Rightarrow> string list \<Rightarrow> call list" where
  "cell_model_config c columns =
     [Call ''transformers'' ''PatchTSTConfig'' []
        [(''num_input_channels'', IntV (int (length (drop 1 columns)))),
         (''context_length'', IntV (context_length c)),
         (''patch_length'', IntV (patch_length c)),
         (''patch_stride'', IntV (patch_length c)),
         (''prediction_length'', IntV (forecast_horizon c)),
         (''random_mask_ratio'', Dec 4 (- 1)),
         (''d_model'', IntV 128),
         (''num_attention_heads'', IntV 16),
         (''num_hidden_layers'', IntV 3),
         (''ffn_dim'', IntV 256),
         (''dropout'', Dec 2 (- 1)),
         (''head_dropout'', Dec 2 (- 1)),
         (''pooling_type'', NoneV),
         (''channel_attention'', Bool False),
         (''scaling'', Str ''std''),
         (''loss'', Str ''mse''),
         (''pre_norm'', Bool True),
         (''norm_type'', Str ''batchnorm'')],
      Call ''transformers'' ''PatchTSTForPrediction'' [Obj ''config''] []]"

text \<open>
  \<^verbatim>\<open>
  training_args = TrainingArguments(
      output_dir="./checkpoint/patchtst/electricity/pretrain/output/",
      overwrite_output_dir=True,
      # learning_rate=0.001,
      num_train_epochs=100,
      do_eval=True,
      eval_strategy="epoch",
      per_device_train_batch_size=batch_size,
      per_device_eval_batch_size=batch_size,
      dataloader_num_workers=num_workers,
      save_strategy="epoch",
      logging_strategy="epoch",
      save_total_limit=3,
      logging_dir="./checkpoint/patchtst/electricity/pretrain/logs/",  # Make sure to specify a logging directory
      load_best_model_at_end=True,  # Load the best model when training ends
      metric_for_best_model="eval_loss",  # Metric to monitor for early stopping
      greater_is_better=False,  # For loss
      label_names=["future_values"],
  )
  early_stopping_callback = EarlyStoppingCallback(
      early_stopping_patience=10,  # Number of epochs with no improvement after which to stop
      early_stopping_threshold=0.0001,  # Minimum improvement required to consider as improvement
  )
  trainer = Trainer(
      model=model,
      args=training_args,
      train_dataset=train_dataset,
      eval_dataset=valid_dataset,
      callbacks=[early_stopping_callback],
      # compute_metrics=compute_metrics,
  )
  trainer.train()
  \<close>
\<close>

definition early_stopping_callback :: "arg \<Rightarrow> call" where
  "early_stopping_callback threshold =
     Call ''transformers'' ''EarlyStoppingCallback'' []
       [(''early_stopping_patience'', IntV 10), (''early_stopping_threshold'', threshold)]"

definition new_trainer :: "string \<Rightarrow> string \<Rightarrow> call" where
  "new_trainer model training_args =
     Call ''transformers'' ''Trainer'' []
       [(''model'', Obj model),
        (''args'', Obj training_args),
        (''train_dataset'', Obj ''train_dataset''),
        (''eval_dataset'', Obj ''valid_dataset''),
        (''callbacks'', Lst [Obj ''early_stopping_callback''])]"

definition train_call :: "string \<Rightarrow> call" where
  "train_call trainer = Call ''transformers'' ''Trainer.train'' [Obj trainer] []"

definition evaluate_call :: "string \<Rightarrow> call" where
  "evaluate_call trainer =
     Call ''transformers'' ''Trainer.evaluate'' [Obj trainer, Obj ''test_dataset''] []"

definition cell_pretrain :: "patchtst_config \<Rightarrow> call list" where
  "cell_pretrain c =
     [Call ''transformers'' ''TrainingArguments'' []
        [(''output_dir'', Str ''./checkpoint/patchtst/electricity/pretrain/output/''),
         (''overwrite_output_dir'', Bool True),
         (''num_train_epochs'', IntV 100),
         (''do_eval'', Bool True),
         (''eval_strategy'', Str ''epoch''),
         (''per_device_train_batch_size'', IntV (batch_size c)),
         (''per_device_eval_batch_size'', IntV (batch_size c)),
         (''dataloader_num_workers'', IntV (num_workers c)),
         (''save_strategy'', Str ''epoch''),
         (''logging_strategy'', Str ''epoch''),
         (''save_total_limit'', IntV 3),
         (''logging_dir'', Str ''./checkpoint/patchtst/electricity/pretrain/logs/''),
         (''load_best_model_at_end'', Bool True),
         (''metric_for_best_model'', Str ''eval_loss''),
         (''greater_is_better'', Bool False),
         (''label_names'', Lst [Str ''future_values''])],
      early_stopping_callback (Dec 1 (- 4)),
      new_trainer ''model'' ''training_args'',
      train_call ''trainer'']"

text \<open>
  \<^verbatim>\<open>
  results = trainer.evaluate(test_dataset)
  print("Test result:")
  print(results)
  \<close>
\<close>

definition cell_evaluate_pretrain :: "call list" where
  "cell_evaluate_pretrain =
     [evaluate_call ''trainer'', print_call [Str ''Test result:''], print_call [Obj ''results'']]"

text \<open>
  \<^verbatim>\<open>
  save_dir = "patchtst/electricity/model/pretrain/"
  os.makedirs(save_dir, exist_ok=True)
  trainer.save_model(save_dir)
  \<close>
\<close>

definition makedirs :: "string \<Rightarrow> call" where
  "makedirs save_dir = Call ''os'' ''makedirs'' [Str save_dir] [(''exist_ok'', Bool True)]"

definition save_model :: "string \<Rightarrow> string \<Rightarrow> call" where
  "save_model trainer save_dir =
     Call ''transformers'' ''Trainer.save_model'' [Obj trainer, Str save_dir] []"

definition pretrain_dir :: string where
  "pretrain_dir = ''patchtst/electricity/model/pretrain/''"

definition cell_save_pretrain :: "call list" where
  "cell_save_pretrain = [makedirs pretrain_dir, save_model ''trainer'' pretrain_dir]"

definition patchtst_part1 :: "patchtst_config \<Rightarrow> string list \<Rightarrow> nat \<Rightarrow> call list" where
  "patchtst_part1 c columns n =
     cell_electricity_data c columns n @
     cell_datasets c [(''timestamp_column'', Str ''date'')] (forecast_columns columns) @
     cell_model_config c columns @ cell_pretrain c @ cell_evaluate_pretrain @
     cell_save_pretrain"

subsection \<open>Part 2: transfer learning from Electricity to the target dataset\<close>

text \<open>
  \<^verbatim>\<open>
  print(f"Loading target dataset: {dataset}")
  dataset_path = f"https://raw.githubusercontent.com/zhouhaoyi/ETDataset/main/ETT-small/{dataset}.csv"
  timestamp_column = "date"
  id_columns = []
  forecast_columns = ["HUFL", "HULL", "MUFL", "MULL", "LUFL", "LULL", "OT"]
  train_start_index = None  # None indicates beginning of dataset
  train_end_index = 12 * 30 * 24

  # we shift the start of the evaluation period back by context length so that
  # the first evaluation timestamp is immediately following the training data
  valid_start_index = 12 * 30 * 24 - context_length
  valid_end_index = 12 * 30 * 24 + 4 * 30 * 24

  test_start_index = 12 * 30 * 24 + 4 * 30 * 24 - context_length
  test_end_index = 12 * 30 * 24 + 8 * 30 * 24
  \<close>
  followed by \<open>pd.read_csv\<close>, the three \<open>select_by_index\<close>, the preprocessor and the
  three datasets, as in part 1.
\<close>

definition target_dataset_path :: "patchtst_config \<Rightarrow> string" where
  "target_dataset_path c =
     ''https://raw.githubusercontent.com/zhouhaoyi/ETDataset/main/ETT-small/'' @ dataset c @
     ''.csv''"

definition target_forecast_columns :: "string list" where
  "target_forecast_columns = [''HUFL'', ''HULL'', ''MUFL'', ''MULL'', ''LUFL'', ''LULL'', ''OT'']"

definition cell_target_data :: "patchtst_config \<Rightarrow> call list" where
  "cell_target_data c =
     [print_call [Fmt ''Loading target dataset: {}'' [Str (dataset c)]],
      Call ''pandas'' ''read_csv'' [Str (target_dataset_path c)]
        [(''parse_dates'', Lst [Str ''date''])],
      select_by_index NoneV (IntV (12 * 30 * 24)),
      select_by_index (IntV (12 * 30 * 24 - context_length c))
        (IntV (12 * 30 * 24 + 4 * 30 * 24)),
      select_by_index (IntV (12 * 30 * 24 + 4 * 30 * 24 - context_length c))
        (IntV (12 * 30 * 24 + 8 * 30 * 24))] @
     time_series_preprocessor ''date'' (Lst (map Str target_forecast_columns))"

text \<open>
  \<^verbatim>\<open>
  finetune_forecast_model = PatchTSTForPrediction.from_pretrained(
      "patchtst/electricity/model/pretrain/",
      num_input_channels=len(forecast_columns),
      head_dropout=0.7,
  )
  \<close>
  The reload before the full fine-tuning passes \<^verbatim>\<open>dropout=0.7\<close> as well.
\<close>

definition from_pretrained :: "(string \<times> arg) list \<Rightarrow> call" where
  "from_pretrained dropout =
     Call ''transformers'' ''PatchTSTForPrediction.from_pretrained''
       [Str ''patchtst/electricity/model/pretrain/'']
       ([(''num_input_channels'', IntV (int (length target_forecast_columns)))] @ dropout @
        [(''head_dropout'', Dec 7 (- 1))])"

text \<open>
  \<^verbatim>\<open>
  finetune_forecast_args = TrainingArguments(
      output_dir="./checkpoint/patchtst/transfer/finetune/output/",
      overwrite_output_dir=True,
      learning_rate=0.0001,
      num_train_epochs=100,
      do_eval=True,
      eval_strategy="epoch",
      per_device_train_batch_size=batch_size,
      per_device_eval_batch_size=batch_size,
      dataloader_num_workers=num_workers,
      report_to="tensorboard",
      save_strategy="epoch",
      logging_strategy="epoch",
      save_total_limit=3,
      logging_dir="./checkpoint/patchtst/transfer/finetune/logs/",  # Make sure to specify a logging directory
      load_best_model_at_end=True,  # Load the best model when training ends
      metric_for_best_model="eval_loss",  # Metric to monitor for early stopping
      greater_is_better=False,  # For loss
      label_names=["future_values"],
  )
  early_stopping_callback = EarlyStoppingCallback(
      early_stopping_patience=10,  # Number of epochs with no improvement after which to stop
      early_stopping_threshold=0.001,  # Minimum improvement required to consider as improvement
  )
  finetune_forecast_trainer = Trainer(
      model=finetune_forecast_model,
      args=finetune_forecast_args,
      train_dataset=train_dataset,
      eval_dataset=valid_dataset,
      callbacks=[early_stopping_callback],
  )
  print("\n\nDoing zero-shot forecasting on target data")
  result = finetune_forecast_trainer.evaluate(test_dataset)
  print("Target data zero-shot forecasting result:")
  print(result)
  \<close>
\<close>

definition cell_zero_shot :: "patchtst_config \<Rightarrow> call list" where
  "cell_zero_shot c =
     [Call ''transformers'' ''TrainingArguments'' []
        [(''output_dir'', Str ''./checkpoint/patchtst/transfer/finetune/output/''),
         (''overwrite_output_dir'', Bool True),
         (''learning_rate'', Dec 1 (- 4)),
         (''num_train_epochs'', IntV 100),
         (''do_eval'', Bool True),
         (''eval_strategy'', Str ''epoch''),
         (''per_device_train_batch_size'', IntV (batch_size c)),
         (''per_device_eval_batch_size'', IntV (batch_size c)),
         (''dataloader_num_workers'', IntV (num_workers c)),
         (''report_to'', Str ''tensorboard''),
         (''save_strategy'', Str ''epoch''),
         (''logging_strategy'', Str ''epoch''),
         (''save_total_limit'', IntV 3),
         (''logging_dir'', Str ''./checkpoint/patchtst/transfer/finetune/logs/''),
         (''load_best_model_at_end'', Bool True),
         (''metric_for_best_model'', Str ''eval_loss''),
         (''greater_is_better'', Bool False),
         (''label_names'', Lst [Str ''future_values''])],
      early_stopping_callback (Dec 1 (- 3)),
      new_trainer ''finetune_forecast_model'' ''finetune_forecast_args'',
      print_call [Str ''\<newline>\<newline>Doing zero-shot forecasting on target data''],
      evaluate_call ''finetune_forecast_trainer'',
      print_call [Str ''Target data zero-shot forecasting result:''],
      print_call [Obj ''result'']]"

text \<open>
  \<^verbatim>\<open>
  # Freeze the backbone of the model
  for param in finetune_forecast_trainer.model.model.parameters():
      param.requires_grad = False

  print("\n\nLinear probing on the target data")
  finetune_forecast_trainer.train()
  print("Evaluating")
  result = finetune_forecast_trainer.evaluate(test_dataset)
  print("Target data head/linear probing result:")
  print(result)
  \<close>
  The loop runs its body once for each parameter of the backbone; their number is an
  input.
\<close>

definition freeze_param :: call where
  "freeze_param =
     Call ''torch'' ''Tensor.__setattr__'' [Obj ''param'', Str ''requires_grad'', Bool False] []"

fun freeze_loop :: "nat \<Rightarrow> call list" where
  "freeze_loop 0 = []"
| "freeze_loop (Suc k) = freeze_param # freeze_loop k"

definition cell_linear_probe :: "nat \<Rightarrow> call list" where
  "cell_linear_probe params =
     [Call ''torch'' ''Module.parameters'' [Obj ''finetune_forecast_trainer.model.model''] []] @
     freeze_loop params @
     [print_call [Str ''\<newline>\<newline>Linear probing on the target data''],
      train_call ''finetune_forecast_trainer'',
      print_call [Str ''Evaluating''],
      evaluate_call ''finetune_forecast_trainer'',
      print_call [Str ''Target data head/linear probing result:''],
      print_call [Obj ''result'']]"

text \<open>
  \<^verbatim>\<open>
  save_dir = f"patchtst/electricity/model/transfer/{dataset}/model/linear_probe/"
  os.makedirs(save_dir, exist_ok=True)
  finetune_forecast_trainer.save_model(save_dir)

  save_dir = f"patchtst/electricity/model/transfer/{dataset}/preprocessor/"
  os.makedirs(save_dir, exist_ok=True)
  time_series_preprocessor.save_pretrained(save_dir)
  \<close>
\<close>

definition transfer_dir :: "patchtst_config \<Rightarrow> string \<Rightarrow> string" where
  "transfer_dir c sub = ''patchtst/electricity/model/transfer/'' @ dataset c @ sub"

definition linear_probe_dir :: "patchtst_config \<Rightarrow> string" where
  "linear_probe_dir c = transfer_dir c ''/model/linear_probe/''"

definition preprocessor_dir :: "patchtst_config \<Rightarrow> string" where
  "preprocessor_dir c = transfer_dir c ''/preprocessor/''"

definition fine_tuning_dir :: "patchtst_config \<Rightarrow> string" where
  "fine_tuning_dir c = transfer_dir c ''/model/fine_tuning/''"

definition cell_save_linear_probe :: "patchtst_config \<Rightarrow> call list" where
  "cell_save_linear_probe c =
     [makedirs (linear_probe_dir c),
      save_model ''finetune_forecast_trainer'' (linear_probe_dir c),
      makedirs (preprocessor_dir c),
      Call ''tsfm_public.toolkit.time_series_preprocessor''
        ''TimeSeriesPreprocessor.save_pretrained''
        [Obj ''time_series_preprocessor'', Str (preprocessor_dir c)] []]"

text \<open>
  \<^verbatim>\<open>
  # Reload the model
  finetune_forecast_model = PatchTSTForPrediction.from_pretrained(
      "patchtst/electricity/model/pretrain/",
      num_input_channels=len(forecast_columns),
      dropout=0.7,
      head_dropout=0.7,
  )
  finetune_forecast_trainer = Trainer(
      model=finetune_forecast_model,
      args=finetune_forecast_args,
      train_dataset=train_dataset,
      eval_dataset=valid_dataset,
      callbacks=[early_stopping_callback],
  )
  print("\n\nFinetuning on the target data")
  finetune_forecast_trainer.train()
  print("Evaluating")
  result = finetune_forecast_trainer.evaluate(test_dataset)
  print("Target data full finetune result:")
  print(result)
  \<close>
  and
  \<^verbatim>\<open>
  save_dir = f"patchtst/electricity/model/transfer/{dataset}/model/fine_tuning/"
  os.makedirs(save_dir, exist_ok=True)
  finetune_forecast_trainer.save_model(save_dir)
  \<close>
\<close>

definition cell_fine_tune :: "call list" where
  "cell_fine_tune =
     [from_pretrained [(''dropout'', Dec 7 (- 1))],
      new_trainer ''finetune_forecast_model'' ''finetune_forecast_args'',
      print_call [Str ''\<newline>\<newline>Finetuning on the target data''],
      train_call ''finetune_forecast_trainer'',
      print_call [Str ''Evaluating''],
      evaluate_call ''finetune_forecast_trainer'',
      print_call [Str ''Target data full finetune result:''],
      print_call [Obj ''result'']]"

definition cell_save_fine_tuning :: "patchtst_config \<Rightarrow> call list" where
  "cell_save_fine_tuning c =
     [makedirs (fine_tuning_dir c),
      save_model ''finetune_forecast_trainer'' (fine_tuning_dir c)]"

definition patchtst_part2 :: "patchtst_config \<Rightarrow> nat \<Rightarrow> call list" where
  "patchtst_part2 c params =
     cell_target_data c @
     cell_datasets c [] (Lst (map Str target_forecast_columns)) @
     [from_pretrained []] @ cell_zero_shot c @ cell_linear_probe params @
     cell_save_linear_probe c @ cell_fine_tune @ cell_save_fine_tuning c"

text \<open>
  The notebook: the code above raises nothing of its own, so the program is its calls.
  The inputs are the columns and the length of the Electricity dataframe and the
  number of parameters of the backbone.
\<close>

definition patchtst_calls ::
  "patchtst_config \<Rightarrow> string list \<Rightarrow> nat \<Rightarrow> nat \<Rightarrow> call list" where
  "patchtst_calls c columns n params =
     cell_setup @ patchtst_part1 c columns n @ patchtst_part2 c params"


section \<open>Properties of a run\<close>

text \<open>The callee of a call: the module and the name.\<close>

definition callee :: "call \<Rightarrow> string \<times> string" where
  "callee c = (modl c, fn c)"

text \<open>
  The stages of the pipeline the specification names: load the dataset, load the
  tokenizer or preprocessor, configure the model and the training arguments,
  instantiate the trainer, train, evaluate, save. A call belongs to a stage by its
  callee; the other calls (printing, subscripting, building datasets, measuring sizes,
  creating directories, reloading the saved quantized model) belong to none.
\<close>

datatype stage = LoadDataset | LoadPreprocessor | Configure | MakeTrainer | Train | Evaluate | Save

definition stage_of :: "call \<Rightarrow> stage option" where
  "stage_of c =
     (if fn c \<in> {''load_dataset'', ''read_csv''} then Some LoadDataset
      else if fn c \<in> {''AutoTokenizer.from_pretrained'', ''TimeSeriesPreprocessor''}
        then Some LoadPreprocessor
      else if fn c \<in> {''AutoModelForSequenceClassification.from_pretrained'',
                       ''QuantizationAwareTrainingConfig'', ''TrainingArguments'',
                       ''PatchTSTConfig'', ''PatchTSTForPrediction'',
                       ''PatchTSTForPrediction.from_pretrained'', ''EarlyStoppingCallback''}
        then Some Configure
      else if fn c \<in> {''INCTrainer'', ''Trainer''} then Some MakeTrainer
      else if fn c \<in> {''INCTrainer.train'', ''Trainer.train''} then Some Train
      else if fn c \<in> {''INCTrainer.evaluate'', ''Trainer.evaluate''} then Some Evaluate
      else if fn c \<in> {''INCTrainer.save_model'', ''Trainer.save_model'',
                       ''TimeSeriesPreprocessor.save_pretrained''}
        then Some Save
      else None)"

fun stages :: "call list \<Rightarrow> stage list" where
  "stages [] = []"
| "stages (c # cs) = (case stage_of c of None \<Rightarrow> stages cs | Some st \<Rightarrow> st # stages cs)"

fun stage_rank :: "stage \<Rightarrow> nat" where
  "stage_rank LoadDataset = 0"
| "stage_rank LoadPreprocessor = 1"
| "stage_rank Configure = 2"
| "stage_rank MakeTrainer = 3"
| "stage_rank Train = 4"
| "stage_rank Evaluate = 5"
| "stage_rank Save = 6"

definition all_stages :: "stage list" where
  "all_stages = [LoadDataset, LoadPreprocessor, Configure, MakeTrainer, Train, Evaluate, Save]"

text \<open>
  One linear pipeline: the stages of the calls are in the order of the pipeline (a
  stage never comes after a later one) and each of the seven occurs.
\<close>

definition linear_pipeline :: "call list \<Rightarrow> bool" where
  "linear_pipeline cs =
     (sorted (map stage_rank (stages cs)) \<and> set all_stages \<subseteq> set (stages cs))"

text \<open>
  The callees whose use would be concurrency of the notebook's own: everything in the
  packages of threads, processes, locks, queues, signals and asynchronous tasks (a
  module belongs to a package when it is the package or lies below it), and the
  functions of \<open>os\<close> that create, replace, signal or await a process.
\<close>

definition concurrency_packages :: "string list" where
  "concurrency_packages =
     [''threading'', ''_thread'', ''multiprocessing'', ''concurrent'', ''asyncio'',
      ''subprocess'', ''queue'', ''signal'', ''sched'', ''select'', ''selectors'',
      ''socketserver'', ''pty'', ''torch.multiprocessing'', ''torch.distributed'',
      ''joblib'', ''dask'', ''ray'']"

definition os_process_functions :: "string list" where
  "os_process_functions =
     [''fork'', ''forkpty'', ''system'', ''popen'', ''posix_spawn'', ''posix_spawnp'',
      ''spawnl'', ''spawnle'', ''spawnlp'', ''spawnlpe'', ''spawnv'', ''spawnve'',
      ''spawnvp'', ''spawnvpe'', ''execl'', ''execle'', ''execlp'', ''execlpe'', ''execv'',
      ''execve'', ''execvp'', ''execvpe'', ''startfile'', ''kill'', ''killpg'', ''wait'',
      ''wait3'', ''wait4'', ''waitid'', ''waitpid'', ''abort'', ''_exit'', ''nice'',
      ''register_at_fork'', ''pidfd_open'']"

definition in_package :: "string \<Rightarrow> string \<Rightarrow> bool" where
  "in_package package m = (m = package \<or> take (Suc (length package)) m = package @ ''.'')"

definition concurrency_module :: "string \<Rightarrow> bool" where
  "concurrency_module m = list_ex (\<lambda>package. in_package package m) concurrency_packages"

definition concurrency_primitive :: "string \<times> string \<Rightarrow> bool" where
  "concurrency_primitive cl =
     (concurrency_module (fst cl) \<or> (fst cl = ''os'' \<and> snd cl \<in> set os_process_functions))"

text \<open>
  The keywords by which the libraries are asked for parallel work, and the values that
  are numbers or booleans.
\<close>

definition parallelism_keywords :: "string list" where
  "parallelism_keywords =
     [''batched'', ''num_workers'', ''dataloader_num_workers'', ''num_proc'', ''n_jobs'']"

fun number_or_bool :: "arg \<Rightarrow> bool" where
  "number_or_bool (IntV i) = True"
| "number_or_bool (Bool b) = True"
| "number_or_bool v = False"

text \<open>
  Every callee of the two notebooks, at the top level and in the bodies of the
  functions they define.
\<close>

definition notebook_callees :: "(string \<times> string) list" where
  "notebook_callees =
     [(''builtins'', ''print''),
      (''builtins'', ''dict.__getitem__''),
      (''copy'', ''deepcopy''),
      (''os'', ''makedirs''),
      (''os'', ''remove''),
      (''os.path'', ''getsize''),
      (''warnings'', ''filterwarnings''),
      (''datasets'', ''load_dataset''),
      (''datasets'', ''DatasetDict.__getitem__''),
      (''datasets'', ''Dataset.__getitem__''),
      (''datasets'', ''DatasetDict.map''),
      (''datasets'', ''Dataset.select''),
      (''evaluate'', ''load''),
      (''evaluate'', ''EvaluationModule.compute''),
      (''numpy'', ''argmax''),
      (''numpy'', ''ndarray.__getitem__''),
      (''torch'', ''save''),
      (''torch'', ''Module.state_dict''),
      (''torch'', ''Module.parameters''),
      (''torch'', ''Tensor.__setattr__''),
      (''transformers.utils'', ''send_example_telemetry''),
      (''transformers'', ''set_seed''),
      (''transformers'', ''AutoTokenizer.from_pretrained''),
      (''transformers'', ''PreTrainedTokenizer.__call__''),
      (''transformers'', ''AutoModelForSequenceClassification.from_pretrained''),
      (''transformers'', ''TrainingArguments''),
      (''transformers'', ''EarlyStoppingCallback''),
      (''transformers'', ''PatchTSTConfig''),
      (''transformers'', ''PatchTSTForPrediction''),
      (''transformers'', ''PatchTSTForPrediction.from_pretrained''),
      (''transformers'', ''Trainer''),
      (''transformers'', ''Trainer.train''),
      (''transformers'', ''Trainer.evaluate''),
      (''transformers'', ''Trainer.save_model''),
      (''neural_compressor'', ''QuantizationAwareTrainingConfig''),
      (''optimum.intel.neural_compressor'', ''INCTrainer''),
      (''optimum.intel.neural_compressor'', ''INCTrainer.train''),
      (''optimum.intel.neural_compressor'', ''INCTrainer.evaluate''),
      (''optimum.intel.neural_compressor'', ''INCTrainer.save_model''),
      (''optimum.intel.neural_compressor'',
       ''INCModelForSequenceClassification.from_pretrained''),
      (''optimum.onnxruntime'', ''ORTModelForSequenceClassification.from_pretrained''),
      (''pandas'', ''read_csv''),
      (''pandas'', ''Index.__getitem__''),
      (''pandas'', ''DataFrame.__len__''),
      (''tsfm_public.toolkit.util'', ''select_by_index''),
      (''tsfm_public.toolkit.dataset'', ''ForecastDFDataset''),
      (''tsfm_public.toolkit.time_series_preprocessor'', ''TimeSeriesPreprocessor''),
      (''tsfm_public.toolkit.time_series_preprocessor'', ''TimeSeriesPreprocessor.train''),
      (''tsfm_public.toolkit.time_series_preprocessor'',
       ''TimeSeriesPreprocessor.preprocess''),
      (''tsfm_public.toolkit.time_series_preprocessor'',
       ''TimeSeriesPreprocessor.save_pretrained'')]"

text \<open>
  A call that is one of these and that hands every keyword of parallelism a number or a
  boolean.
\<close>

definition plain_call :: "call \<Rightarrow> bool" where
  "plain_call x =
     (callee x \<in> set notebook_callees \<and>
      list_all (\<lambda>kw. fst kw \<in> set parallelism_keywords \<longrightarrow> number_or_bool (snd kw))
        (kwargs x))"










text \<open>
  An environment to run the functions in: the values of the source, a tokenizer that
  returns the columns it is given, and a metric that returns the predictions it is
  given.
\<close>

definition example_globals :: "string \<Rightarrow> (string list list, int ndarray1, int, int list) glue_globals" where
  "example_globals t =
     \<lparr> task = t,
       model_checkpoint = ''distilbert-base-uncased-finetuned-sst-2-english'',
       batch_size = 16,
       max_train_samples = 200,
       max_eval_samples = 200,
       sentence1_key = ''sentence'',
       sentence2_key = None,
       max_seq_length = 128,
       padding = ''max_length'',
       tokenizer = (\<lambda>columns padding max_length truncation. Inr columns),
       metric = (\<lambda>predictions references. Inr predictions) \<rparr>"

section \<open>The claims of the specification\<close>

subsection \<open>The tasks and their keys\<close>

text \<open>
  C8: every task string of \<open>GLUE_TASKS\<close> is a key of \<open>task_to_keys\<close>, so the lookup
  \<open>task_to_keys[task]\<close> raises no \<open>KeyError\<close> for a task chosen from \<open>GLUE_TASKS\<close>.
\<close>

theorem glue_tasks_are_keys:
  "\<forall>t \<in> set GLUE_TASKS.
     t \<in> fst ` set task_to_keys \<and> (\<exists>keys. dict_getitem task_to_keys t = Inr keys)"
  by (simp add: GLUE_TASKS_def task_to_keys_def dict_getitem_def)

theorem glue_tasks_are_keys_witness:
  "''sst2'' \<in> set GLUE_TASKS \<and> dict_getitem task_to_keys ''sst2'' = Inr (''sentence'', None)"
  using glue_tasks_are_keys by (simp add: GLUE_TASKS_def task_to_keys_def dict_getitem_def)

subsection \<open>The split of the Electricity data\<close>

lemma electricity_split_example:
  "num_train 26304 = 18412 \<and> num_test 26304 = 5260 \<and> num_valid 26304 = 2632 \<and>
   border1s default_patchtst_config 26304 = [0, 17900, 20532] \<and>
   border2s 26304 = [18412, 21044, 26304]"
  by code_simp

text \<open>
  The product is a double: for 90 rows \<open>90 * 0.7\<close> is just below 63 and truncates to 62.
\<close>

lemma float_product_truncates_below: "num_train 90 = 62 \<and> (7 * 90) div 10 = (63::int)"
  by code_simp

text \<open>
  C9: for every length of the dataframe and every context length, the three splits add
  up to the length, the training split is the rows from 0 to \<open>num_train\<close>, the test
  split ends at the length, and the validation and the test window start
  \<open>context_length\<close> rows before the end of the split before them, so that the first
  forecast position of each (the start plus \<open>context_length\<close>) is that end. The
  equations hold as well where a short dataframe makes a start index negative.
\<close>

theorem electricity_split:
  "num_train n + num_valid n + num_test n = int n \<and>
   train_start_index c n = 0 \<and> train_end_index n = num_train n \<and>
   test_end_index n = int n \<and>
   valid_start_index c n = num_train n - context_length c \<and>
   test_start_index c n = int n - num_test n - context_length c \<and>
   valid_start_index c n + context_length c = train_end_index n \<and>
   test_start_index c n + context_length c = valid_end_index n"
  by (simp add: num_valid_def train_start_index_def train_end_index_def valid_start_index_def
      valid_end_index_def test_start_index_def test_end_index_def border1s_def border2s_def)

theorem electricity_split_witness:
  "num_train 26304 + num_valid 26304 + num_test 26304 = 26304 \<and>
   valid_start_index default_patchtst_config 26304 = 17900 \<and>
   test_start_index default_patchtst_config 26304 = 20532 \<and>
   test_end_index 26304 = 26304"
  using electricity_split [of 26304 default_patchtst_config] electricity_split_example
  by (simp add: default_patchtst_config_def)

subsection \<open>The size of a model\<close>

lemma round_half_even_near: "\<bar>of_int (round_half_even x) - x\<bar> \<le> 1 / 2"
proof -
  define f where "f = \<lfloor>x\<rfloor>"
  have b: "of_int f \<le> x" "x < of_int f + 1" unfolding f_def by linarith+
  have "round_half_even x = f \<and> x - of_int f \<le> 1 / 2 \<or>
        round_half_even x = f + 1 \<and> 1 / 2 \<le> x - of_int f"
    unfolding round_half_even_def Let_def f_def [symmetric] by auto
  then show ?thesis using b by (auto simp: abs_if)
qed

lemma py_round2_near: "\<bar>py_round2 x - x\<bar> \<le> 1 / 200"
proof -
  have "\<bar>of_int (round_half_even (x * 100)) - x * 100\<bar> \<le> 1 / 2" by (rule round_half_even_near)
  then show ?thesis by (simp add: py_round2_def abs_if field_simps split: if_splits)
qed

lemma get_model_size_eq:
  "get_model_size serialize model fs =
     (case serialize model of
        Inl e \<Rightarrow> Inl e
      | Inr bytes \<Rightarrow> Inr (py_round2 (of_nat (length bytes) / (1024 * 1024)), fs(''tmp.pt'' := None)))"
  by (simp add: get_model_size_def bind_err_def torch_save_def os_path_getsize_def os_remove_def
      split: sum.splits)

text \<open>
  C10 (as amended): whenever the serialization succeeds, \<open>get_model_size\<close> returns;
  its value is the number of bytes divided by \<open>1024*1024\<close>, rounded to a multiple of
  \<open>1/100\<close> at most \<open>1/200\<close> away; no file \<open>tmp.pt\<close> is left, and every other path is as
  before. The files are unchanged when \<open>tmp.pt\<close> did not exist before the call.
\<close>

theorem get_model_size_frame:
  assumes "serialize model = Inr bytes"
  shows "\<exists>model_size fs'. get_model_size serialize model fs = Inr (model_size, fs') \<and>
           model_size = py_round2 (of_nat (length bytes) / (1024 * 1024)) \<and>
           \<bar>model_size - of_nat (length bytes) / (1024 * 1024)\<bar> \<le> 1 / 200 \<and>
           (\<exists>k::int. model_size = of_int k / 100) \<and>
           fs' ''tmp.pt'' = None \<and> (\<forall>p. p \<noteq> ''tmp.pt'' \<longrightarrow> fs' p = fs p) \<and>
           (fs ''tmp.pt'' = None \<longrightarrow> fs' = fs)"
proof -
  let ?mib = "of_nat (length bytes) / (1024 * 1024) :: rat"
  let ?fs = "fs(''tmp.pt'' := None)"
  have returns: "get_model_size serialize model fs = Inr (py_round2 ?mib, ?fs)"
    using assms by (simp add: get_model_size_eq)
  have near: "\<bar>py_round2 ?mib - ?mib\<bar> \<le> 1 / 200" by (rule py_round2_near)
  have cent: "\<exists>k::int. py_round2 ?mib = of_int k / 100" unfolding py_round2_def by (rule exI) (rule refl)
  have gone: "?fs ''tmp.pt'' = None" by simp
  have others: "\<forall>p. p \<noteq> ''tmp.pt'' \<longrightarrow> ?fs p = fs p" by simp
  have same: "fs ''tmp.pt'' = None \<longrightarrow> ?fs = fs" by (simp add: fun_upd_idem_iff)
  show ?thesis
    by (rule exI [of _ "py_round2 ?mib"], rule exI [of _ ?fs])
       (intro conjI returns refl near cent gone others same)
qed

lemma py_round2_example: "py_round2 (3 / 2) = 3 / 2"
  by code_simp

theorem get_model_size_frame_witness:
  "\<exists>model_size fs'. get_model_size (\<lambda>m. Inr (replicate m (0::nat))) (1572864::nat) Map.empty = Inr (model_size, fs') \<and>
      model_size = 3 / 2 \<and> fs' = Map.empty"
proof -
  have ser: "(\<lambda>m. Inr (replicate m (0::nat))) (1572864::nat) = (Inr (replicate 1572864 0) :: error + nat list)" by (rule refl)
  have mib: "(of_nat (length (replicate 1572864 (0::nat))) / (1024 * 1024) :: rat) = 3 / 2"
    by (simp only: length_replicate)
  from get_model_size_frame
    [where serialize = "\<lambda>m. Inr (replicate m (0::nat))" and model = "1572864::nat"
       and bytes = "replicate 1572864 0" and fs = Map.empty] ser
  obtain model_size fs' where r: "get_model_size (\<lambda>m. Inr (replicate m (0::nat))) (1572864::nat) Map.empty = Inr (model_size, fs')"
    and s: "model_size = py_round2 (of_nat (length (replicate 1572864 (0::nat))) / (1024 * 1024))"
    and f: "(Map.empty ''tmp.pt'' = (None :: nat list option) \<longrightarrow> fs' = Map.empty)"
    by blast
  have "model_size = 3 / 2" using s by (simp only: mib py_round2_example)
  moreover have "fs' = Map.empty" using f by simp
  ultimately show ?thesis using r by blast
qed

text \<open>
  The files do change when \<open>tmp.pt\<close> exists before the call: it is overwritten and then
  removed.
\<close>

theorem get_model_size_changes_filesystem:
  "get_model_size Inr [1, 2, 3] (Map.empty(''tmp.pt'' \<mapsto> [7])) = Inr (0, Map.empty) \<and>
   Map.empty(''tmp.pt'' \<mapsto> [7]) \<noteq> (Map.empty :: filesystem)"
proof -
  have "py_round2 (of_nat (length [1, 2, 3 :: nat]) / (1024 * 1024)) = 0" by code_simp
  then show ?thesis by (simp add: get_model_size_eq)
qed

subsection \<open>The functions and the module-level variables\<close>








text \<open>
  C7 (as amended): \<open>compute_metrics\<close> reads the module-level variables \<open>task\<close> and
  \<open>metric\<close>, and \<open>preprocess_function\<close> reads \<open>sentence1_key\<close>, \<open>sentence2_key\<close>,
  \<open>tokenizer\<close>, \<open>padding\<close> and \<open>max_seq_length\<close>. In two environments that agree on
  the variables a function reads, the function returns the same result for the same
  argument, whatever the other variables hold.
\<close>

theorem functions_read_module_variables:
  "(task g = task g' \<and> metric g = metric g' \<longrightarrow>
      compute_metrics g eval_pred = compute_metrics g' eval_pred) \<and>
   (sentence1_key g = sentence1_key g' \<and> sentence2_key g = sentence2_key g' \<and>
    tokenizer g = tokenizer g' \<and> padding g = padding g' \<and>
    max_seq_length g = max_seq_length g' \<longrightarrow>
      preprocess_function g examples = preprocess_function g' examples)"
  by (auto simp: compute_metrics_def preprocess_function_def split: option.splits)

theorem functions_read_module_variables_witness:
  "task (example_globals ''sst2'') = task ((example_globals ''sst2'')\<lparr>max_train_samples := 50\<rparr>) \<and>
   metric (example_globals ''sst2'') = metric ((example_globals ''sst2'')\<lparr>max_train_samples := 50\<rparr>) \<and>
   compute_metrics (example_globals ''sst2'') (\<lparr>ncols = 2, rows = [[1, 5], [4, 2]]\<rparr>, [1, 0]) =
   compute_metrics ((example_globals ''sst2'')\<lparr>max_train_samples := 50\<rparr>)
     (\<lparr>ncols = 2, rows = [[1, 5], [4, 2]]\<rparr>, [1, 0]) \<and>
   compute_metrics (example_globals ''sst2'') (\<lparr>ncols = 2, rows = [[1, 5], [4, 2]]\<rparr>, [1, 0]) =
     Inr (Indices [1, 0])"
  using functions_read_module_variables
    [of "example_globals ''sst2''" "(example_globals ''sst2'')\<lparr>max_train_samples := 50\<rparr>"
        "(\<lparr>ncols = 2, rows = [[1, 5], [4, 2]]\<rparr>, [1, 0])"]
  by (simp add: example_globals_def compute_metrics_def np_argmax_axis1_def bind_err_def
      argmax_row_def)

text \<open>
  Two environments that differ in \<open>task\<close> only: the same argument gives class indices
  in one and the first column in the other.
\<close>

theorem compute_metrics_depends_on_task:
  "compute_metrics (example_globals ''sst2'') (\<lparr>ncols = 2, rows = [[1, 5], [4, 2]]\<rparr>, [1, 0]) =
     Inr (Indices [1, 0]) \<and>
   compute_metrics (example_globals ''stsb'') (\<lparr>ncols = 2, rows = [[1, 5], [4, 2]]\<rparr>, [1, 0]) =
     Inr (Values [1, 4])"
  by (simp add: example_globals_def compute_metrics_def np_argmax_axis1_def column0_def
      bind_err_def argmax_row_def first_of_row_def)

subsection \<open>The order of the pipeline\<close>

lemmas glue_cells =
  glue_before_lookup_def glue_pipeline_def cell_version_def cell_load_dataset_def
  cell_telemetry_def cell_tokenizer_def first_sentence_def cell_show_sentences_def cell_map_def
  cell_model_def cell_quantization_config_def cell_training_args_def cell_trainer_def
  cell_train_def cell_evaluate_def get_model_size_calls_def cell_save_model_def
  cell_load_quantized_def print_call_def

lemmas patchtst_cells =
  cell_setup_def select_by_index_def time_series_preprocessor_def len_data_def
  cell_electricity_data_def forecast_dataset_def cell_datasets_def cell_model_config_def
  early_stopping_callback_def new_trainer_def train_call_def evaluate_call_def cell_pretrain_def
  cell_evaluate_pretrain_def makedirs_def save_model_def cell_save_pretrain_def
  cell_target_data_def from_pretrained_def cell_zero_shot_def freeze_param_def
  cell_linear_probe_def cell_save_linear_probe_def cell_fine_tune_def cell_save_fine_tuning_def
  print_call_def

lemma stages_append: "stages (xs @ ys) = stages xs @ stages ys"
  by (induction xs) (auto split: option.splits)

lemma stages_freeze_loop: "stages (freeze_loop k) = []"
  by (induction k) (simp_all add: freeze_param_def stage_of_def)

lemma stages_before_lookup: "stages (glue_before_lookup c) = [LoadDataset, LoadPreprocessor]"
  by (simp add: glue_cells stage_of_def)

lemma stages_glue_pipeline:
  "stages (glue_pipeline c k1 k2) = [Configure, Configure, Configure, MakeTrainer, Train, Evaluate]"
  by (simp add: glue_cells stage_of_def split: option.splits)

lemma stages_model_sizes: "stages (fst (cell_model_sizes fp q)) = []"
  by (simp add: cell_model_sizes_def Let_def seq_def calls_def raise_def glue_cells stage_of_def
      split: sum.splits)

lemma stages_save_and_load:
  "stages cell_save_model = [Save]" "stages (cell_load_quantized c) = []"
  by (simp_all add: glue_cells stage_of_def)

lemma glue_notebook_runs:
  assumes "dict_getitem task_to_keys (task c) = Inr (k1, k2)" "model_size_of_bytes q \<noteq> 0"
  shows "glue_notebook c fp q =
           (glue_before_lookup c @ glue_pipeline c k1 k2 @ fst (cell_model_sizes fp q) @
            cell_save_model @ cell_load_quantized c, None)"
  using assms
  by (simp add: glue_notebook_def seq_def calls_def raise_def cell_model_sizes_def Let_def
      py_truediv_def)

lemma stages_part1:
  "stages (patchtst_part1 c columns n) =
     [LoadDataset, LoadPreprocessor, Configure, Configure, Configure, Configure, MakeTrainer,
      Train, Evaluate, Save]"
  by (simp add: patchtst_part1_def patchtst_cells stage_of_def)

lemma stages_part2:
  "stages (patchtst_part2 c params) =
     [LoadDataset, LoadPreprocessor, Configure, Configure, Configure, MakeTrainer, Evaluate,
      Train, Evaluate, Save, Save, Configure, MakeTrainer, Train, Evaluate, Save]"
  by (simp add: patchtst_part2_def patchtst_cells stage_of_def stages_append stages_freeze_loop)

text \<open>
  C1 (as amended): when the code of the quantization notebook raises nothing of its own
  (the task is a key of \<open>task_to_keys\<close> and the rounded size of the quantized model is
  not zero), its calls go through the stages of the pipeline in order, none skipped;
  the reload of the saved model follows. Part 1 of the PatchTST notebook is one linear
  pipeline too. The PatchTST notebook goes on with part 2, which runs the stages again
  on the target dataset: it evaluates before it trains (the zero-shot forecast), saves
  the model and the preprocessor, and configures, trains, evaluates and saves once
  more for the full fine-tuning.
\<close>

theorem pipeline_order:
  "(dict_getitem task_to_keys (task c) = Inr keys \<and> model_size_of_bytes q \<noteq> 0 \<longrightarrow>
      snd (glue_notebook c fp q) = None \<and>
      stages (fst (glue_notebook c fp q)) =
        [LoadDataset, LoadPreprocessor, Configure, Configure, Configure, MakeTrainer, Train,
         Evaluate, Save] \<and>
      linear_pipeline (fst (glue_notebook c fp q))) \<and>
   linear_pipeline (cell_setup @ patchtst_part1 pc columns n) \<and>
   patchtst_calls pc columns n params =
     (cell_setup @ patchtst_part1 pc columns n) @ patchtst_part2 pc params \<and>
   stages (patchtst_part2 pc params) =
     [LoadDataset, LoadPreprocessor, Configure, Configure, Configure, MakeTrainer, Evaluate,
      Train, Evaluate, Save, Save, Configure, MakeTrainer, Train, Evaluate, Save]"
proof -
  have glue: "snd (glue_notebook c fp q) = None \<and>
      stages (fst (glue_notebook c fp q)) =
        [LoadDataset, LoadPreprocessor, Configure, Configure, Configure, MakeTrainer, Train,
         Evaluate, Save] \<and>
      linear_pipeline (fst (glue_notebook c fp q))"
    if ok: "dict_getitem task_to_keys (task c) = Inr keys" "model_size_of_bytes q \<noteq> 0"
  proof -
    obtain k1 k2 where keys: "keys = (k1, k2)" by (cases keys)
    have nb: "glue_notebook c fp q =
           (glue_before_lookup c @ glue_pipeline c k1 k2 @ fst (cell_model_sizes fp q) @
            cell_save_model @ cell_load_quantized c, None)"
      using ok unfolding keys by (rule glue_notebook_runs)
    have st: "stages (fst (glue_notebook c fp q)) =
        [LoadDataset, LoadPreprocessor, Configure, Configure, Configure, MakeTrainer, Train,
         Evaluate, Save]"
      unfolding nb fst_conv stages_append stages_before_lookup stages_glue_pipeline
        stages_model_sizes stages_save_and_load by simp
    show ?thesis unfolding linear_pipeline_def st by (simp add: nb all_stages_def)
  qed
  have part1: "linear_pipeline (cell_setup @ patchtst_part1 pc columns n)"
    unfolding linear_pipeline_def stages_append stages_part1
    by (simp add: cell_setup_def stage_of_def all_stages_def)
  have whole: "patchtst_calls pc columns n params =
     (cell_setup @ patchtst_part1 pc columns n) @ patchtst_part2 pc params"
    by (simp add: patchtst_calls_def)
  show ?thesis using glue part1 whole stages_part2 by blast
qed

lemma default_task_keys:
  "dict_getitem task_to_keys (task default_config) = Inr (''sentence'', None)"
  by (simp add: default_config_def task_to_keys_def dict_getitem_def)

lemma example_size_nonzero: "model_size_of_bytes 67000000 \<noteq> 0"
  by code_simp

theorem pipeline_order_witness:
  "dict_getitem task_to_keys (task default_config) = Inr (''sentence'', None) \<and>
   model_size_of_bytes 67000000 \<noteq> 0 \<and>
   snd (glue_notebook default_config 267000000 67000000) = None \<and>
   linear_pipeline (fst (glue_notebook default_config 267000000 67000000))"
  using pipeline_order [of default_config "(''sentence'', None)" 67000000 267000000]
    default_task_keys example_size_nonzero
  by blast

text \<open>The PatchTST notebook as a whole is not one linear pipeline.\<close>

theorem patchtst_notebook_repeats_pipeline:
  "\<not> linear_pipeline (patchtst_calls default_patchtst_config [''date'', ''MT_320'', ''MT_321''] 26304 2)"
proof -
  have "stages (patchtst_calls default_patchtst_config [''date'', ''MT_320'', ''MT_321''] 26304 2) =
     [LoadDataset, LoadPreprocessor, Configure, Configure, Configure, Configure, MakeTrainer,
      Train, Evaluate, Save] @
     [LoadDataset, LoadPreprocessor, Configure, Configure, Configure, MakeTrainer, Evaluate,
      Train, Evaluate, Save, Save, Configure, MakeTrainer, Train, Evaluate, Save]"
    unfolding patchtst_calls_def stages_append stages_part1 stages_part2
    by (simp add: cell_setup_def stage_of_def)
  then show ?thesis by (simp add: linear_pipeline_def)
qed

subsection \<open>Branches and loops\<close>

lemma callees_freeze_loop: "map callee (freeze_loop k) = replicate k (''torch'', ''Tensor.__setattr__'')"
  by (induction k) (simp_all add: freeze_param_def callee_def)

lemma callees_before_lookup: "map callee (glue_before_lookup c) = map callee (glue_before_lookup c')"
  by (simp add: glue_cells callee_def)

lemma callees_glue_pipeline:
  "(k2 = None \<longleftrightarrow> k2' = None) \<Longrightarrow>
   map callee (glue_pipeline c k1 k2) = map callee (glue_pipeline c' k1' k2')"
  by (cases k2; cases k2') (simp_all add: glue_cells callee_def)

lemma glue_notebook_calls:
  assumes "dict_getitem task_to_keys (task c) = Inr (k1, k2)"
  shows "fst (glue_notebook c fp q) =
           glue_before_lookup c @ glue_pipeline c k1 k2 @ fst (cell_model_sizes fp q) @
           (if model_size_of_bytes q = 0 then [] else cell_save_model @ cell_load_quantized c)"
    and "snd (glue_notebook c fp q) =
           (if model_size_of_bytes q = 0 then Some ZeroDivisionError else None)"
  using assms
  by (simp_all add: glue_notebook_def seq_def calls_def raise_def cell_model_sizes_def Let_def
      py_truediv_def)

lemma callees_model_sizes:
  "(model_size_of_bytes q = 0 \<longleftrightarrow> model_size_of_bytes q' = 0) \<Longrightarrow>
   map callee (fst (cell_model_sizes fp q)) = map callee (fst (cell_model_sizes fp' q'))"
  by (simp add: cell_model_sizes_def Let_def seq_def calls_def raise_def py_truediv_def glue_cells
      callee_def)

lemma callees_save_and_load:
  "map callee (cell_save_model @ cell_load_quantized c) =
   map callee (cell_save_model @ cell_load_quantized c')"
  by (simp add: glue_cells callee_def)

lemma callees_part1:
  "map callee (patchtst_part1 c columns n) = map callee (patchtst_part1 c' columns' n')"
  by (simp add: patchtst_part1_def patchtst_cells callee_def)

lemma callees_part2:
  "map callee (patchtst_part2 c params) = map callee (patchtst_part2 c' params)"
  by (simp add: patchtst_part2_def patchtst_cells callee_def callees_freeze_loop)

lemma count_freeze_loop: "length (filter (\<lambda>x. x = freeze_param) (freeze_loop k)) = k"
  by (induction k) simp_all

lemma count_freeze_part1: "filter (\<lambda>x. x = freeze_param) (cell_setup @ patchtst_part1 c columns n) = []"
  by (simp add: patchtst_part1_def patchtst_cells)

lemma count_freeze_part2:
  "length (filter (\<lambda>x. x = freeze_param) (patchtst_part2 c params)) = params"
proof -
  have "filter (\<lambda>x. x = freeze_param) (patchtst_part2 c params) =
        filter (\<lambda>x. x = freeze_param) (freeze_loop params)"
    by (simp add: patchtst_part2_def cell_linear_probe_def)
       (simp add: patchtst_cells)
  then show ?thesis by (simp add: count_freeze_loop)
qed

text \<open>
  C2 (as amended): the top level of the quantization notebook has one conditional
  statement, on \<open>sentence2_key\<close>, which runs four calls (one print) for a task with one
  sentence and eight (two prints) for a task with two. Two runs whose tasks are keys of
  \<open>task_to_keys\<close> and agree on whether \<open>sentence2_key\<close> is \<open>None\<close>, and whose quantized
  models agree on whether their rounded size is zero, issue the same sequence of
  callees and end alike: normally or, when that size is zero, with the
  \<open>ZeroDivisionError\<close> of \<open>fp_model_size / q_model_size\<close>, before the second print of
  the sizes. The PatchTST notebook has one loop, which runs its body once for each
  parameter of the backbone; two runs with the same number of parameters issue the
  same sequence of callees.
\<close>

theorem control_flow_of_the_notebooks:
  "(dict_getitem task_to_keys (task c) = Inr (k1, k2) \<and>
    dict_getitem task_to_keys (task c') = Inr (k1', k2') \<and>
    (k2 = None \<longleftrightarrow> k2' = None) \<and>
    (model_size_of_bytes q = 0 \<longleftrightarrow> model_size_of_bytes q' = 0) \<longrightarrow>
      map callee (fst (glue_notebook c fp q)) = map callee (fst (glue_notebook c' fp' q')) \<and>
      snd (glue_notebook c fp q) = snd (glue_notebook c' fp' q')) \<and>
   length (cell_show_sentences k1 k2) = (if k2 = None then 4 else 8) \<and>
   map callee (patchtst_calls pc columns n params) =
     map callee (patchtst_calls pc' columns' n' params) \<and>
   length (filter (\<lambda>x. x = freeze_param) (patchtst_calls pc columns n params)) = params"
proof -
  have glue: "map callee (fst (glue_notebook c fp q)) = map callee (fst (glue_notebook c' fp' q')) \<and>
      snd (glue_notebook c fp q) = snd (glue_notebook c' fp' q')"
    if keys: "dict_getitem task_to_keys (task c) = Inr (k1, k2)"
      and keys': "dict_getitem task_to_keys (task c') = Inr (k1', k2')"
      and pair: "k2 = None \<longleftrightarrow> k2' = None"
      and zero: "model_size_of_bytes q = 0 \<longleftrightarrow> model_size_of_bytes q' = 0"
  proof
    show "map callee (fst (glue_notebook c fp q)) = map callee (fst (glue_notebook c' fp' q'))"
      unfolding glue_notebook_calls(1) [OF keys] glue_notebook_calls(1) [OF keys'] map_append
      using zero
      by (simp add: callees_before_lookup [of c c'] callees_glue_pipeline [OF pair, of c k1 c' k1']
          callees_model_sizes [OF zero, of fp fp']
          callees_save_and_load [of c c', unfolded map_append])
    show "snd (glue_notebook c fp q) = snd (glue_notebook c' fp' q')"
      unfolding glue_notebook_calls(2) [OF keys] glue_notebook_calls(2) [OF keys']
      using zero by simp
  qed
  have branch: "length (cell_show_sentences k1 k2) = (if k2 = None then 4 else 8)"
    by (cases k2) (simp_all add: cell_show_sentences_def first_sentence_def)
  have patchtst: "map callee (patchtst_calls pc columns n params) =
     map callee (patchtst_calls pc' columns' n' params)"
    unfolding patchtst_calls_def map_append
    by (simp add: callees_part1 [of pc columns n pc' columns' n'] callees_part2 [of pc params pc'])
  have loop: "length (filter (\<lambda>x. x = freeze_param) (patchtst_calls pc columns n params)) = params"
    using count_freeze_part1 [of pc columns n] count_freeze_part2 [of pc params]
    by (simp add: patchtst_calls_def)
  show ?thesis using glue branch patchtst loop by blast
qed

lemma mrpc_task_keys:
  "dict_getitem task_to_keys (task (default_config\<lparr>task := ''mrpc''\<rparr>)) =
     Inr (''sentence1'', Some ''sentence2'')"
  by (simp add: task_to_keys_def dict_getitem_def)

lemma rte_task_keys:
  "dict_getitem task_to_keys (task (default_config\<lparr>task := ''rte''\<rparr>)) =
     Inr (''sentence1'', Some ''sentence2'')"
  by (simp add: task_to_keys_def dict_getitem_def)

lemma example_size_zero: "model_size_of_bytes 1000 = 0 \<and> model_size_of_bytes 2000 = 0"
  by code_simp

theorem control_flow_of_the_notebooks_witness:
  "dict_getitem task_to_keys (task (default_config\<lparr>task := ''mrpc''\<rparr>)) =
     Inr (''sentence1'', Some ''sentence2'') \<and>
   dict_getitem task_to_keys (task (default_config\<lparr>task := ''rte''\<rparr>)) =
     Inr (''sentence1'', Some ''sentence2'') \<and>
   model_size_of_bytes 67000000 \<noteq> 0 \<and>
   map callee (fst (glue_notebook (default_config\<lparr>task := ''mrpc''\<rparr>) 267000000 67000000)) =
   map callee (fst (glue_notebook (default_config\<lparr>task := ''rte''\<rparr>) 267000000 67000000)) \<and>
   model_size_of_bytes 1000 = 0 \<and> model_size_of_bytes 2000 = 0 \<and>
   map callee (fst (glue_notebook (default_config\<lparr>task := ''mrpc''\<rparr>) 267000000 1000)) =
   map callee (fst (glue_notebook (default_config\<lparr>task := ''rte''\<rparr>) 267000000 2000)) \<and>
   snd (glue_notebook (default_config\<lparr>task := ''mrpc''\<rparr>) 267000000 1000) =
   snd (glue_notebook (default_config\<lparr>task := ''rte''\<rparr>) 267000000 2000)"
proof -
  note nonzero = control_flow_of_the_notebooks
    [where c = "default_config\<lparr>task := ''mrpc''\<rparr>" and ?k1.0 = "''sentence1''"
       and ?k2.0 = "Some ''sentence2''" and c' = "default_config\<lparr>task := ''rte''\<rparr>"
       and k1' = "''sentence1''" and k2' = "Some ''sentence2''"
       and q = 67000000 and q' = 67000000 and fp = 267000000 and fp' = 267000000]
  note zero = control_flow_of_the_notebooks
    [where c = "default_config\<lparr>task := ''mrpc''\<rparr>" and ?k1.0 = "''sentence1''"
       and ?k2.0 = "Some ''sentence2''" and c' = "default_config\<lparr>task := ''rte''\<rparr>"
       and k1' = "''sentence1''" and k2' = "Some ''sentence2''"
       and q = 1000 and q' = 2000 and fp = 267000000 and fp' = 267000000]
  have a: "map callee (fst (glue_notebook (default_config\<lparr>task := ''mrpc''\<rparr>) 267000000 67000000)) =
   map callee (fst (glue_notebook (default_config\<lparr>task := ''rte''\<rparr>) 267000000 67000000))"
    using conjunct1 [OF nonzero] mrpc_task_keys rte_task_keys by simp
  have b: "map callee (fst (glue_notebook (default_config\<lparr>task := ''mrpc''\<rparr>) 267000000 1000)) =
   map callee (fst (glue_notebook (default_config\<lparr>task := ''rte''\<rparr>) 267000000 2000)) \<and>
   snd (glue_notebook (default_config\<lparr>task := ''mrpc''\<rparr>) 267000000 1000) =
   snd (glue_notebook (default_config\<lparr>task := ''rte''\<rparr>) 267000000 2000)"
    using conjunct1 [OF zero] mrpc_task_keys rte_task_keys example_size_zero by simp
  show ?thesis
    using mrpc_task_keys rte_task_keys example_size_nonzero example_size_zero a b by simp
qed

text \<open>
  The task decides which statements run, and the number of parameters decides how
  often the body of the loop runs.
\<close>

theorem branch_and_loop_change_the_statements:
  "map callee (fst (glue_notebook default_config 267000000 67000000)) \<noteq>
   map callee (fst (glue_notebook (default_config\<lparr>task := ''mrpc''\<rparr>) 267000000 67000000)) \<and>
   length (patchtst_calls default_patchtst_config [''date'', ''MT_320''] 26304 0) \<noteq>
   length (patchtst_calls default_patchtst_config [''date'', ''MT_320''] 26304 2)"
proof -
  have "length (map callee (fst (glue_notebook default_config 267000000 67000000))) \<noteq>
        length (map callee (fst (glue_notebook (default_config\<lparr>task := ''mrpc''\<rparr>) 267000000 67000000)))"
    unfolding glue_notebook_runs [OF default_task_keys example_size_nonzero]
      glue_notebook_runs [OF mrpc_task_keys example_size_nonzero]
    by (simp add: glue_cells)
  then have "map callee (fst (glue_notebook default_config 267000000 67000000)) \<noteq>
   map callee (fst (glue_notebook (default_config\<lparr>task := ''mrpc''\<rparr>) 267000000 67000000))"
    by metis
  moreover have "length (patchtst_calls default_patchtst_config [''date'', ''MT_320''] 26304 0) \<noteq>
   length (patchtst_calls default_patchtst_config [''date'', ''MT_320''] 26304 2)"
    by (simp add: patchtst_calls_def patchtst_part2_def cell_linear_probe_def numeral_2_eq_2)
  ultimately show ?thesis by blast
qed

subsection \<open>The callees of the notebooks\<close>

lemma calls_of_glue_notebook:
  "set (fst (glue_notebook c fp q)) \<subseteq>
     set (glue_before_lookup c) \<union> (\<Union>k1 k2. set (glue_pipeline c k1 k2)) \<union>
     set (fst (cell_model_sizes fp q)) \<union> set (cell_save_model @ cell_load_quantized c)"
  by (auto simp: glue_notebook_def seq_def calls_def raise_def split: sum.splits option.splits)

lemma listed_callees_no_concurrency:
  "cl \<in> set notebook_callees \<Longrightarrow> \<not> concurrency_primitive cl"
proof -
  have "list_all (\<lambda>cl. \<not> concurrency_primitive cl) notebook_callees" by code_simp
  then show "cl \<in> set notebook_callees \<Longrightarrow> \<not> concurrency_primitive cl"
    by (simp add: list_all_iff)
qed

lemma imports_no_concurrency:
  "m \<in> set glue_imports \<union> set patchtst_imports \<Longrightarrow> \<not> concurrency_module m"
proof -
  have "list_all (\<lambda>m. \<not> concurrency_module m) (glue_imports @ patchtst_imports)" by code_simp
  then show "m \<in> set glue_imports \<union> set patchtst_imports \<Longrightarrow> \<not> concurrency_module m"
    by (simp add: list_all_iff)
qed

text \<open>
  The predicate does exclude the creation of processes through \<open>os\<close> and through
  modules below a package of concurrency.
\<close>

lemma concurrency_primitive_examples:
  "concurrency_primitive (''os'', ''fork'') \<and> concurrency_primitive (''os'', ''system'') \<and>
   concurrency_primitive (''multiprocessing.pool'', ''Pool'') \<and>
   concurrency_primitive (''threading'', ''Thread'') \<and>
   concurrency_primitive (''concurrent.futures'', ''ThreadPoolExecutor'') \<and>
   \<not> concurrency_primitive (''os'', ''makedirs'')"
  by code_simp

lemmas plain_defs = plain_call_def callee_def notebook_callees_def parallelism_keywords_def

lemma plain_freeze_loop: "list_all plain_call (freeze_loop k)"
  by (induction k) (simp_all add: freeze_param_def plain_defs)

lemma plain_before_lookup: "list_all plain_call (glue_before_lookup c)"
  by (simp add: glue_cells plain_defs)

lemma plain_glue_pipeline: "list_all plain_call (glue_pipeline c k1 k2)"
  by (cases k2) (simp_all add: glue_cells plain_defs)

lemma plain_model_sizes: "list_all plain_call (fst (cell_model_sizes fp q))"
  by (simp add: cell_model_sizes_def Let_def seq_def calls_def raise_def py_truediv_def glue_cells
      plain_defs)

lemma plain_save_and_load: "list_all plain_call (cell_save_model @ cell_load_quantized c)"
  by (simp add: glue_cells plain_defs)

lemma plain_glue_notebook:
  assumes "x \<in> set (fst (glue_notebook c fp q))"
  shows "plain_call x"
proof -
  from assms calls_of_glue_notebook [of c fp q]
  consider "x \<in> set (glue_before_lookup c)" | k1 k2 where "x \<in> set (glue_pipeline c k1 k2)"
    | "x \<in> set (fst (cell_model_sizes fp q))"
    | "x \<in> set (cell_save_model @ cell_load_quantized c)"
    by blast
  then show ?thesis
  proof cases
    case 1
    then show ?thesis using plain_before_lookup [of c] by (simp add: list_all_iff)
  next
    case 2
    then show ?thesis using plain_glue_pipeline [of c k1 k2] by (simp add: list_all_iff)
  next
    case 3
    then show ?thesis using plain_model_sizes [of fp q] by (simp add: list_all_iff)
  next
    case 4
    then show ?thesis using plain_save_and_load [of c] by (simp only: list_all_iff)
  qed
qed

lemma plain_function_calls: "list_all plain_call glue_function_calls"
  by (simp add: glue_function_calls_def get_model_size_calls_def plain_defs)

lemma plain_part1: "list_all plain_call (cell_setup @ patchtst_part1 c columns n)"
  by (simp add: patchtst_part1_def patchtst_cells plain_defs)

lemma plain_part2: "list_all plain_call (patchtst_part2 c params)"
  using plain_freeze_loop [of params]
  by (simp add: patchtst_part2_def cell_linear_probe_def)
     (simp add: patchtst_cells plain_defs)

lemma plain_patchtst: "list_all plain_call (patchtst_calls c columns n params)"
  using plain_part1 [of c columns n] plain_part2 [of c params]
  by (simp add: patchtst_calls_def)

lemma plain_calls:
  assumes "x \<in> set (fst (glue_notebook c fp q)) \<union> set glue_function_calls \<union>
             set (patchtst_calls pc columns n params)"
  shows "plain_call x"
proof -
  from assms consider "x \<in> set (fst (glue_notebook c fp q))" | "x \<in> set glue_function_calls"
    | "x \<in> set (patchtst_calls pc columns n params)"
    by blast
  then show ?thesis
  proof cases
    case 1
    then show ?thesis by (rule plain_glue_notebook)
  next
    case 2
    then show ?thesis using plain_function_calls by (simp add: list_all_iff)
  next
    case 3
    then show ?thesis using plain_patchtst [of pc columns n params] by (simp add: list_all_iff)
  qed
qed

lemma map_call_issued:
  assumes "dict_getitem task_to_keys (task c) = Inr keys"
  shows "Call ''datasets'' ''DatasetDict.map'' [Obj ''dataset'', Fn ''preprocess_function'']
           [(''batched'', Bool True)] \<in> set (fst (glue_notebook c fp q))"
proof -
  obtain k1 k2 where keys: "keys = (k1, k2)" by (cases keys)
  have "Call ''datasets'' ''DatasetDict.map'' [Obj ''dataset'', Fn ''preprocess_function'']
           [(''batched'', Bool True)] \<in> set (glue_pipeline c k1 k2)"
    by (simp add: glue_pipeline_def cell_map_def)
  moreover have "set (glue_pipeline c k1 k2) \<subseteq> set (fst (glue_notebook c fp q))"
    using assms unfolding keys
    by (auto simp add: glue_notebook_def seq_def calls_def raise_def split: option.splits)
  ultimately show ?thesis by blast
qed

lemma training_arguments_workers:
  "list_all (\<lambda>x. fn x = ''TrainingArguments'' \<longrightarrow>
       (''dataloader_num_workers'', IntV (num_workers pc)) \<in> set (kwargs x))
     (patchtst_calls pc columns n params)"
proof -
  have loop: "list_all (\<lambda>x. fn x = ''TrainingArguments'' \<longrightarrow>
       (''dataloader_num_workers'', IntV (num_workers pc)) \<in> set (kwargs x)) (freeze_loop k)" for k
    by (induction k) (simp_all add: freeze_param_def)
  show ?thesis
    using loop [of params]
    by (simp add: patchtst_calls_def patchtst_part1_def patchtst_part2_def cell_linear_probe_def)
       (simp add: patchtst_cells)
qed

lemma training_arguments_count:
  "length (filter (\<lambda>x. fn x = ''TrainingArguments'') (patchtst_calls pc columns n params)) = 2"
proof -
  have loop: "filter (\<lambda>x. fn x = ''TrainingArguments'') (freeze_loop k) = []" for k
    by (induction k) (simp_all add: freeze_param_def)
  show ?thesis
    using loop [of params]
    by (simp add: patchtst_calls_def patchtst_part1_def patchtst_part2_def cell_linear_probe_def)
       (simp add: patchtst_cells)
qed

text \<open>
  C5: every call of either notebook, at the top level or in the functions the notebooks
  define, is to one of the callees listed in \<open>notebook_callees\<close>. None of them lies in a
  package of threads, processes, locks, queues, signals or asynchronous tasks, none is
  a function of \<open>os\<close> that creates, replaces, signals or awaits a process, and no
  import is of such a package. Every keyword of parallelism that a call has is given a
  number or a boolean. The quantization notebook, its task a key of \<open>task_to_keys\<close>,
  calls \<open>dataset.map\<close> with \<open>batched=True\<close>; the PatchTST notebook makes two
  \<open>TrainingArguments\<close>, each with \<open>dataloader_num_workers=num_workers\<close>.
\<close>

theorem no_concurrency_primitives:
  "(\<forall>x \<in> set (fst (glue_notebook c fp q)) \<union> set glue_function_calls \<union>
          set (patchtst_calls pc columns n params).
      callee x \<in> set notebook_callees \<and> \<not> concurrency_primitive (callee x) \<and>
      (\<forall>kw \<in> set (kwargs x). fst kw \<in> set parallelism_keywords \<longrightarrow> number_or_bool (snd kw))) \<and>
   (\<forall>m \<in> set glue_imports \<union> set patchtst_imports. \<not> concurrency_module m) \<and>
   (dict_getitem task_to_keys (task c) = Inr keys \<longrightarrow>
      Call ''datasets'' ''DatasetDict.map'' [Obj ''dataset'', Fn ''preprocess_function'']
        [(''batched'', Bool True)] \<in> set (fst (glue_notebook c fp q))) \<and>
   length (filter (\<lambda>x. fn x = ''TrainingArguments'') (patchtst_calls pc columns n params)) = 2 \<and>
   (\<forall>x \<in> set (patchtst_calls pc columns n params).
      fn x = ''TrainingArguments'' \<longrightarrow>
      (''dataloader_num_workers'', IntV (num_workers pc)) \<in> set (kwargs x))"
proof (intro conjI ballI impI)
  fix x
  assume x: "x \<in> set (fst (glue_notebook c fp q)) \<union> set glue_function_calls \<union>
          set (patchtst_calls pc columns n params)"
  have p: "plain_call x" using x by (rule plain_calls)
  show listed: "callee x \<in> set notebook_callees" using p by (simp add: plain_call_def)
  show "\<not> concurrency_primitive (callee x)" using listed by (rule listed_callees_no_concurrency)
  fix kw
  assume "kw \<in> set (kwargs x)" "fst kw \<in> set parallelism_keywords"
  then show "number_or_bool (snd kw)" using p by (simp add: plain_call_def list_all_iff)
next
  fix m
  assume "m \<in> set glue_imports \<union> set patchtst_imports"
  then show "\<not> concurrency_module m" by (rule imports_no_concurrency)
next
  assume "dict_getitem task_to_keys (task c) = Inr keys"
  then show "Call ''datasets'' ''DatasetDict.map'' [Obj ''dataset'', Fn ''preprocess_function'']
        [(''batched'', Bool True)] \<in> set (fst (glue_notebook c fp q))"
    by (rule map_call_issued)
next
  show "length (filter (\<lambda>x. fn x = ''TrainingArguments'') (patchtst_calls pc columns n params)) = 2"
    by (rule training_arguments_count)
next
  fix x
  assume "x \<in> set (patchtst_calls pc columns n params)" "fn x = ''TrainingArguments''"
  then show "(''dataloader_num_workers'', IntV (num_workers pc)) \<in> set (kwargs x)"
    using training_arguments_workers [of pc columns n params] by (simp add: list_all_iff)
qed

theorem no_concurrency_primitives_witness:
  "dict_getitem task_to_keys (task default_config) = Inr (''sentence'', None) \<and>
   Call ''datasets'' ''DatasetDict.map'' [Obj ''dataset'', Fn ''preprocess_function'']
     [(''batched'', Bool True)] \<in> set (fst (glue_notebook default_config 267000000 67000000)) \<and>
   \<not> concurrency_primitive (''datasets'', ''DatasetDict.map'') \<and>
   number_or_bool (Bool True) \<and>
   hd (cell_pretrain default_patchtst_config) \<in>
     set (patchtst_calls default_patchtst_config [''date'', ''MT_320''] 26304 2) \<and>
   fn (hd (cell_pretrain default_patchtst_config)) = ''TrainingArguments'' \<and>
   (''dataloader_num_workers'', IntV 16) \<in> set (kwargs (hd (cell_pretrain default_patchtst_config))) \<and>
   ''os'' \<in> set glue_imports \<and> \<not> concurrency_module ''os''"
proof -
  let ?cs = "patchtst_calls default_patchtst_config [''date'', ''MT_320''] 26304 2"
  let ?glue = "fst (glue_notebook default_config 267000000 67000000)"
  let ?map = "Call ''datasets'' ''DatasetDict.map'' [Obj ''dataset'', Fn ''preprocess_function'']
     [(''batched'', Bool True)]"
  let ?args = "hd (cell_pretrain default_patchtst_config)"
  note inst = no_concurrency_primitives
    [where c = default_config and fp = 267000000 and q = 67000000 and pc = default_patchtst_config
       and columns = "[''date'', ''MT_320'']" and n = 26304 and params = 2
       and keys = "(''sentence'', None)"]
  have issued: "?map \<in> set ?glue"
    using conjunct1 [OF conjunct2 [OF conjunct2 [OF inst]]] default_task_keys by simp
  then have "?map \<in> set ?glue \<union> set glue_function_calls \<union> set ?cs" by simp
  from bspec [OF conjunct1 [OF inst] this]
  have a: "\<not> concurrency_primitive (''datasets'', ''DatasetDict.map'')"
    by (simp add: callee_def)
  have b: "?args \<in> set ?cs"
    by (simp add: patchtst_calls_def patchtst_part1_def cell_pretrain_def)
  have f: "fn ?args = ''TrainingArguments''"
    by (simp add: cell_pretrain_def)
  have w: "num_workers default_patchtst_config = 16" by (simp add: default_patchtst_config_def)
  from bspec [OF conjunct2 [OF conjunct2 [OF conjunct2 [OF conjunct2 [OF inst]]]] b] f w
  have d: "(''dataloader_num_workers'', IntV 16) \<in> set (kwargs ?args)"
    by simp
  have i: "''os'' \<in> set glue_imports \<union> set patchtst_imports" by (simp add: glue_imports_def)
  have o: "\<not> concurrency_module ''os''"
    using bspec [OF conjunct1 [OF conjunct2 [OF inst]] i] .
  have i': "''os'' \<in> set glue_imports" by (simp add: glue_imports_def)
  have nb: "number_or_bool (Bool True)" by simp
  show ?thesis
    using default_task_keys issued a b f d i' o nb by (intro conjI)
qed

subsection \<open>The saved models\<close>




























subsection \<open>What the notebooks compute between the calls\<close>
















end
